theory Spec2Isabelle
  imports Main
begin


section \<open>Overview\<close>

text \<open>
  A shallow embedding of \<^verbatim>\<open>channels/generic/websocket.py\<close>: the synchronous and the
  asynchronous WebSocket consumers, their JSON variants and the JSON demultiplexer.

  \<^item> A method of a consumer is a function that returns the list of effects it performed, in
    order, together with its result: \<open>Inr\<close> a value, or \<open>Inl\<close> the exception it raised.
    \<^verbatim>\<open>await\<close> has no counterpart: a coroutine is followed to its end before the next
    statement runs, so the asynchronous methods denote the same functions as the synchronous
    ones and are written out a second time only to mirror the source.
  \<^item> The methods an application overrides (\<^verbatim>\<open>connect\<close>, \<^verbatim>\<open>receive\<close>,
    \<^verbatim>\<open>disconnect\<close>, \<^verbatim>\<open>receive_json\<close>) are fields of the consumer record; a call
    through \<^verbatim>\<open>self\<close> reads the field and leaves a \<open>Call\<close> mark in the trace.
  \<^item> \<^verbatim>\<open>json.loads\<close> and \<^verbatim>\<open>json.dumps\<close> belong to the Python standard library. They
    are modelled here with their default options on the values and texts this development
    represents: integers, strings of code points below 256, lists, and dictionaries with
    string keys. Floats and larger code points are outside; a text that denotes one decodes
    to the marker \<open>NotModelled\<close>, which no theorem below relies on.
\<close>

section \<open>Exceptions and JSON values\<close>

text \<open>
  The exceptions the code raises or catches. \<open>JSONDecodeError\<close> is the standard library's
  (a subclass of \<^verbatim>\<open>ValueError\<close> in Python, kept apart here so that a malformed text and
  a rejected frame can be told from each other). \<open>AcceptConnection\<close>, \<open>DenyConnection\<close>,
  \<open>StopConsumer\<close> and \<open>InvalidChannelLayerError\<close> are the classes the module imports
  from \<^verbatim>\<open>channels.exceptions\<close>. \<open>NotModelled\<close> is not an exception: it marks an input
  whose Python result this development does not represent. \<open>OutOfFuel\<close> is the decoder
  running out of recursion budget; \<open>loads_total\<close> shows that it never happens.
\<close>

datatype exn =
    ValueError string
  | TypeError
  | AttributeError
  | TimeoutError
  | KeyError string
  | JSONDecodeError
  | InvalidChannelLayerError string
  | AcceptConnection
  | DenyConnection
  | StopConsumer
  | NotModelled
  | OutOfFuel

text \<open>
  The values \<^verbatim>\<open>json.loads\<close> returns and \<^verbatim>\<open>json.dumps\<close> accepts: \<^verbatim>\<open>None\<close>,
  \<^verbatim>\<open>bool\<close>, \<^verbatim>\<open>int\<close> (unbounded), \<^verbatim>\<open>str\<close>, \<^verbatim>\<open>list\<close> and \<^verbatim>\<open>dict\<close> with
  string keys, in insertion order.
\<close>

datatype json =
    JNull
  | JBool bool
  | JInt int
  | JStr string
  | JList "json list"
  | JDict "(string \<times> json) list"

subsection \<open>Encoding: json.dumps\<close>

text \<open>
  \<^verbatim>\<open>str(n)\<close> for an integer: decimal digits, most significant first, with a leading minus
  sign for a negative number.
\<close>

definition digit_char :: "nat \<Rightarrow> char" where
  "digit_char n = char_of (48 + n mod 10)"

fun str_nat :: "nat \<Rightarrow> string" where
  "str_nat n = (if n < 10 then [digit_char n] else str_nat (n div 10) @ [digit_char (n mod 10)])"

declare str_nat.simps [simp del]

definition str_int :: "int \<Rightarrow> string" where
  "str_int i = (if i < 0 then CHR ''-'' # str_nat (nat (- i)) else str_nat (nat i))"

text \<open>
  \<^verbatim>\<open>json.dumps\<close> with \<^verbatim>\<open>ensure_ascii=True\<close> leaves the printable ASCII characters but
  the double quote and the backslash as they are, writes the two-character escapes for
  backslash, quote, backspace, form feed, newline, carriage return and tab, and
  writes every other character as a \<^verbatim>\<open>u\<close> escape with four lower-case hexadecimal digits.
\<close>

definition hexdigit :: "nat \<Rightarrow> char" where
  "hexdigit n = char_of (if n mod 16 < 10 then 48 + n mod 16 else 87 + n mod 16)"

definition escape_char :: "char \<Rightarrow> string" where
  "escape_char c =
    (if c = CHR 0x5C then [CHR 0x5C, CHR 0x5C]
     else if c = CHR 0x22 then [CHR 0x5C, CHR 0x22]
     else if c = CHR 0x08 then [CHR 0x5C, CHR ''b'']
     else if c = CHR 0x0C then [CHR 0x5C, CHR ''f'']
     else if c = CHR 0x0A then [CHR 0x5C, CHR ''n'']
     else if c = CHR 0x0D then [CHR 0x5C, CHR ''r'']
     else if c = CHR 0x09 then [CHR 0x5C, CHR ''t'']
     else if 0x20 \<le> (of_char c :: nat) \<and> (of_char c :: nat) \<le> 0x7E then [c]
     else [CHR 0x5C, CHR ''u'', CHR ''0'', CHR ''0'',
           hexdigit ((of_char c :: nat) div 16), hexdigit ((of_char c :: nat) mod 16)])"

definition encode_basestring_ascii :: "string \<Rightarrow> string" where
  "encode_basestring_ascii s = CHR 0x22 # concat (map escape_char s) @ [CHR 0x22]"

text \<open>
  \<^verbatim>\<open>json.dumps(content)\<close> with the default separators: a comma and a space between items,
  a colon and a space after a key.
\<close>

fun dumps :: "json \<Rightarrow> string"
  and dumps_list :: "json list \<Rightarrow> string"
  and dumps_dict :: "(string \<times> json) list \<Rightarrow> string" where
  "dumps JNull = ''null''"
| "dumps (JBool b) = (if b then ''true'' else ''false'')"
| "dumps (JInt i) = str_int i"
| "dumps (JStr s) = encode_basestring_ascii s"
| "dumps (JList vs) = ''['' @ dumps_list vs @ '']''"
| "dumps (JDict kvs) = ''{'' @ dumps_dict kvs @ ''}''"
| "dumps_list [] = []"
| "dumps_list [v] = dumps v"
| "dumps_list (v # w # vs) = dumps v @ '', '' @ dumps_list (w # vs)"
| "dumps_dict [] = []"
| "dumps_dict [(k, v)] = encode_basestring_ascii k @ '': '' @ dumps v"
| "dumps_dict ((k, v) # p # ps) =
     encode_basestring_ascii k @ '': '' @ dumps v @ '', '' @ dumps_dict (p # ps)"

subsection \<open>Decoding: json.loads\<close>

text \<open>
  The decoder follows the scanner of the standard library: \<open>scan_once\<close> reads one value at
  the head of the text, \<open>JSONArray\<close> and \<open>JSONObject\<close> read the items of a list and of a
  dictionary, \<open>scanstring\<close> reads a string after its opening quote. White space is a
  space, a tab, a line feed or a carriage return.
\<close>

definition is_ws :: "char \<Rightarrow> bool" where
  "is_ws c = (c = CHR '' '' \<or> c = CHR 0x09 \<or> c = CHR 0x0A \<or> c = CHR 0x0D)"

definition skip_ws :: "string \<Rightarrow> string" where
  "skip_ws s = dropWhile is_ws s"

definition is_digit :: "char \<Rightarrow> bool" where
  "is_digit c = (48 \<le> (of_char c :: nat) \<and> (of_char c :: nat) \<le> 57)"

definition int_of_digits :: "string \<Rightarrow> nat" where
  "int_of_digits ds = foldl (\<lambda>a c. 10 * a + ((of_char c :: nat) - 48)) 0 ds"

definition has_frac :: "string \<Rightarrow> bool" where
  "has_frac s = (case s of c # d # _ \<Rightarrow> c = CHR ''.'' \<and> is_digit d | _ \<Rightarrow> False)"

definition has_exp :: "string \<Rightarrow> bool" where
  "has_exp s =
     (case s of
        e # d # r \<Rightarrow>
          (e = CHR ''e'' \<or> e = CHR ''E'') \<and>
          (is_digit d \<or> ((d = CHR ''-'' \<or> d = CHR ''+'') \<and> (case r of d' # _ \<Rightarrow> is_digit d' | [] \<Rightarrow> False)))
      | _ \<Rightarrow> False)"

text \<open>
  A number is an optional minus sign and then either a single zero or a non-zero digit
  followed by digits. When a fraction or an exponent follows, Python reads a float, which
  is outside this development.
\<close>

definition match_number :: "string \<Rightarrow> (exn + json \<times> string) option" where
  "match_number s =
     (let neg = (case s of c # _ \<Rightarrow> c = CHR ''-'' | [] \<Rightarrow> False);
          s1 = (if neg then tl s else s)
      in case s1 of
           [] \<Rightarrow> None
         | d # r \<Rightarrow>
             if \<not> is_digit d then None
             else
               let ds = (if d = CHR ''0'' then [d] else d # takeWhile is_digit r);
                   rest = (if d = CHR ''0'' then r else dropWhile is_digit r)
               in if has_frac rest \<or> has_exp rest then Some (Inl NotModelled)
                  else Some (Inr (JInt (if neg then - int (int_of_digits ds) else int (int_of_digits ds)), rest)))"

definition hexval :: "char \<Rightarrow> nat option" where
  "hexval c =
     (let n = (of_char c :: nat)
      in if 48 \<le> n \<and> n \<le> 57 then Some (n - 48)
         else if 97 \<le> n \<and> n \<le> 102 then Some (n - 87)
         else if 65 \<le> n \<and> n \<le> 70 then Some (n - 55)
         else None)"

definition decode_uXXXX :: "char \<Rightarrow> char \<Rightarrow> char \<Rightarrow> char \<Rightarrow> nat option" where
  "decode_uXXXX a b c d =
     (case (hexval a, hexval b, hexval c, hexval d) of
        (Some w, Some x, Some y, Some z) \<Rightarrow> Some (((w * 16 + x) * 16 + y) * 16 + z)
      | _ \<Rightarrow> None)"

definition BACKSLASH :: "char \<Rightarrow> char option" where
  "BACKSLASH c =
     (if c = CHR 0x22 then Some (CHR 0x22)
      else if c = CHR 0x5C then Some (CHR 0x5C)
      else if c = CHR ''/'' then Some (CHR ''/'')
      else if c = CHR ''b'' then Some (CHR 0x08)
      else if c = CHR ''f'' then Some (CHR 0x0C)
      else if c = CHR ''n'' then Some (CHR 0x0A)
      else if c = CHR ''r'' then Some (CHR 0x0D)
      else if c = CHR ''t'' then Some (CHR 0x09)
      else None)"

definition cons_chunk :: "char \<Rightarrow> exn + string \<times> string \<Rightarrow> exn + string \<times> string" where
  "cons_chunk c r = (case r of Inl e \<Rightarrow> Inl e | Inr (t, rest) \<Rightarrow> Inr (c # t, rest))"

text \<open>
  \<open>scanstring\<close> stops at the closing quote, rejects a raw control character and a wrong
  escape, and decodes the escapes; the result is the string and the text after the quote.
\<close>

fun scanstring :: "string \<Rightarrow> exn + string \<times> string" where
  "scanstring [] = Inl JSONDecodeError"
| "scanstring (c # cs) =
     (if c = CHR 0x22 then Inr ([], cs)
      else if c = CHR 0x5C then
        (case cs of
           [] \<Rightarrow> Inl JSONDecodeError
         | esc # cs' \<Rightarrow>
             if esc = CHR ''u'' then
               (case cs' of
                  h1 # h2 # h3 # h4 # rest \<Rightarrow>
                    (case decode_uXXXX h1 h2 h3 h4 of
                       None \<Rightarrow> Inl JSONDecodeError
                     | Some uni \<Rightarrow>
                         if uni < 256 then cons_chunk (char_of uni) (scanstring rest)
                         else Inl NotModelled)
                | _ \<Rightarrow> Inl JSONDecodeError)
             else
               (case BACKSLASH esc of
                  None \<Rightarrow> Inl JSONDecodeError
                | Some ch \<Rightarrow> cons_chunk ch (scanstring cs')))
      else if (of_char c :: nat) < 0x20 then Inl JSONDecodeError
      else cons_chunk c (scanstring cs))"

text \<open>
  \<^verbatim>\<open>dict(pairs)\<close>: a later pair with a key already present replaces the value and keeps the
  key's position.
\<close>

fun dict_setitem :: "(string \<times> json) list \<Rightarrow> string \<Rightarrow> json \<Rightarrow> (string \<times> json) list" where
  "dict_setitem [] k v = [(k, v)]"
| "dict_setitem ((k', v') # d) k v =
     (if k' = k then (k', v) # d else (k', v') # dict_setitem d k v)"

definition dict_of_pairs :: "(string \<times> json) list \<Rightarrow> (string \<times> json) list" where
  "dict_of_pairs ps = foldl (\<lambda>d (k, v). dict_setitem d k v) [] ps"

text \<open>
  \<^verbatim>\<open>s[idx:idx + n] == literal\<close>, for the text from \<^verbatim>\<open>idx\<close> on.
\<close>

definition starts_with :: "string \<Rightarrow> string \<Rightarrow> bool" where
  "starts_with p s = (take (length p) s = p)"

text \<open>
  The first argument bounds the number of nested calls; every call consumes at least one
  character before it recurses, so \<open>loads\<close> starts with more fuel than the text can use.
\<close>

fun scan_once :: "nat \<Rightarrow> string \<Rightarrow> exn + json \<times> string"
  and JSONArray :: "nat \<Rightarrow> string \<Rightarrow> exn + json list \<times> string"
  and JSONObject :: "nat \<Rightarrow> string \<Rightarrow> exn + (string \<times> json) list \<times> string" where
  "scan_once 0 s = Inl OutOfFuel"
| "scan_once (Suc n) s =
     (case s of
        [] \<Rightarrow> Inl JSONDecodeError
      | nextchar # cs \<Rightarrow>
          if nextchar = CHR 0x22 then
            (case scanstring cs of Inl e \<Rightarrow> Inl e | Inr (t, rest) \<Rightarrow> Inr (JStr t, rest))
          else if nextchar = CHR ''{'' then
            (case skip_ws cs of
               [] \<Rightarrow> Inl JSONDecodeError
             | c # r \<Rightarrow>
                 if c = CHR ''}'' then Inr (JDict [], r)
                 else if c = CHR 0x22 then
                   (case JSONObject n r of
                      Inl e \<Rightarrow> Inl e
                    | Inr (pairs, rest) \<Rightarrow> Inr (JDict (dict_of_pairs pairs), rest))
                 else Inl JSONDecodeError)
          else if nextchar = CHR ''['' then
            (case skip_ws cs of
               [] \<Rightarrow> Inl JSONDecodeError
             | c # r \<Rightarrow>
                 if c = CHR '']'' then Inr (JList [], r)
                 else
                   (case JSONArray n (c # r) of
                      Inl e \<Rightarrow> Inl e
                    | Inr (values, rest) \<Rightarrow> Inr (JList values, rest)))
          else if starts_with ''null'' s then Inr (JNull, drop 4 s)
          else if starts_with ''true'' s then Inr (JBool True, drop 4 s)
          else if starts_with ''false'' s then Inr (JBool False, drop 5 s)
          else
            (case match_number s of
               Some r \<Rightarrow> r
             | None \<Rightarrow>
                 if starts_with ''NaN'' s \<or> starts_with ''Infinity'' s \<or> starts_with ''-Infinity'' s
                 then Inl NotModelled
                 else Inl JSONDecodeError))"
| "JSONArray 0 s = Inl OutOfFuel"
| "JSONArray (Suc n) s =
     (case scan_once n s of
        Inl e \<Rightarrow> Inl e
      | Inr (v, r) \<Rightarrow>
          (case skip_ws r of
             [] \<Rightarrow> Inl JSONDecodeError
           | c # r' \<Rightarrow>
               if c = CHR '']'' then Inr ([v], r')
               else if c = CHR '','' then
                 (case JSONArray n (skip_ws r') of
                    Inl e \<Rightarrow> Inl e
                  | Inr (vs, rest) \<Rightarrow> Inr (v # vs, rest))
               else Inl JSONDecodeError))"
| "JSONObject 0 s = Inl OutOfFuel"
| "JSONObject (Suc n) s =
     (case scanstring s of
        Inl e \<Rightarrow> Inl e
      | Inr (key, r) \<Rightarrow>
          (case skip_ws r of
             [] \<Rightarrow> Inl JSONDecodeError
           | c # r1 \<Rightarrow>
               if c \<noteq> CHR '':'' then Inl JSONDecodeError
               else
                 (case scan_once n (skip_ws r1) of
                    Inl e \<Rightarrow> Inl e
                  | Inr (v, r2) \<Rightarrow>
                      (case skip_ws r2 of
                         [] \<Rightarrow> Inl JSONDecodeError
                       | c' # r3 \<Rightarrow>
                           if c' = CHR ''}'' then Inr ([(key, v)], r3)
                           else if c' = CHR '','' then
                             (case skip_ws r3 of
                                [] \<Rightarrow> Inl JSONDecodeError
                              | q # r4 \<Rightarrow>
                                  if q \<noteq> CHR 0x22 then Inl JSONDecodeError
                                  else
                                    (case JSONObject n r4 of
                                       Inl e \<Rightarrow> Inl e
                                     | Inr (ps, rest) \<Rightarrow> Inr ((key, v) # ps, rest)))
                           else Inl JSONDecodeError))))"

text \<open>
  \<^verbatim>\<open>json.loads(s)\<close> for a string: white space, one value, white space, and nothing else.
\<close>

definition loads :: "string \<Rightarrow> exn + json" where
  "loads s =
     (let s0 = skip_ws s
      in case scan_once (2 * length s0 + 1) s0 of
           Inl e \<Rightarrow> Inl e
         | Inr (obj, rest) \<Rightarrow> if skip_ws rest = [] then Inr obj else Inl JSONDecodeError)"

text \<open>
  What may follow an encoded integer without changing how it is read, and what the first
  character of an encoded value never is.
\<close>

definition number_end :: "string \<Rightarrow> bool" where
  "number_end rest =
     (case rest of [] \<Rightarrow> True
      | c # _ \<Rightarrow> \<not> is_digit c \<and> c \<noteq> CHR ''.'' \<and> c \<noteq> CHR ''e'' \<and> c \<noteq> CHR ''E'')"

subsection \<open>Python dictionaries have distinct keys\<close>



section \<open>Events, effects and consumers\<close>

text \<open>
  The values that travel in event dictionaries and in the keyword arguments of
  \<^verbatim>\<open>send\<close>, \<^verbatim>\<open>receive\<close> and \<^verbatim>\<open>close\<close>. A message is a dictionary from keys to such
  values, written in the order of the source's dictionary display.
\<close>

datatype pyval = PNone | PBool bool | PInt int | PStr string | PBytes string

type_synonym message = "(string \<times> pyval) list"

text \<open>
  Python's truth value, as \<^verbatim>\<open>if text_data:\<close> and \<^verbatim>\<open>if close:\<close> test it.
\<close>

fun truthy :: "pyval \<Rightarrow> bool" where
  "truthy PNone = False"
| "truthy (PBool b) = b"
| "truthy (PInt i) = (i \<noteq> 0)"
| "truthy (PStr s) = (s \<noteq> [])"
| "truthy (PBytes b) = (b \<noteq> [])"

text \<open>
  \<^verbatim>\<open>key in d\<close> and \<^verbatim>\<open>d.get(key)\<close>; \<^verbatim>\<open>d[key]\<close> is \<open>getitem\<close> below, which raises
  \<^verbatim>\<open>KeyError\<close>.
\<close>

definition dict_contains :: "(string \<times> 'v) list \<Rightarrow> string \<Rightarrow> bool" where
  "dict_contains d k = (map_of d k \<noteq> None)"


text \<open>
  A child task, by an identifier.
\<close>

type_synonym task = nat

text \<open>
  A call of an overridable method through \<^verbatim>\<open>self\<close>, with its arguments.
\<close>

datatype hook =
    ConnectHook
  | ReceiveHook pyval pyval
  | DisconnectHook pyval
  | ReceiveJsonHook json

text \<open>
  Modelled from the spec: what a method does to the world outside the class is recorded,
  in order, and not interpreted, because the base classes \<^verbatim>\<open>SyncConsumer\<close> and \<^verbatim>\<open>AsyncConsumer\<close>
  (\<^verbatim>\<open>channels/consumer.py\<close>), the mixin \<^verbatim>\<open>Demultiplexer\<close>
  (\<^verbatim>\<open>channels/generic/multiplexer.py\<close>) and the channel layer are not part of the sources at
  hand. \<open>Send\<close> is
  \<^verbatim>\<open>super().send(event)\<close>, the outbound event of this connection; \<open>BaseSend\<close> is
  \<^verbatim>\<open>self.base_send(event)\<close>; \<open>GroupAdd\<close> and \<open>GroupDiscard\<close> are the channel layer's
  \<^verbatim>\<open>group_add\<close> and \<^verbatim>\<open>group_discard\<close>; \<open>SendUpstream\<close> and \<open>SendToAllUpstream\<close> hand
  an event to the child application of one stream and of every stream; \<open>AsyncioWait\<close> is
  the call of \<^verbatim>\<open>asyncio.wait\<close> on the child tasks with its timeout. \<open>Call\<close> marks the
  entry into an overridable method.
\<close>

datatype effect =
    Send message
  | BaseSend message
  | GroupAdd string string
  | GroupDiscard string string
  | Call hook
  | SendUpstream json message
  | SendToAllUpstream message
  | AsyncioWait "task list" nat

text \<open>
  A computation: the effects performed and the value returned or the exception raised.
\<close>

type_synonym 'a io = "effect list \<times> (exn + 'a)"

text \<open>
  Returning, raising, performing one effect, sequencing, and \<^verbatim>\<open>try ... except\<close>: the
  handler answers \<open>None\<close> for an exception no clause matches, which then propagates.
\<close>

definition io_return :: "'a \<Rightarrow> 'a io" where
  "io_return x = ([], Inr x)"

definition io_raise :: "exn \<Rightarrow> 'a io" where
  "io_raise e = ([], Inl e)"

definition perform :: "effect \<Rightarrow> unit io" where
  "perform e = ([e], Inr ())"

definition io_bind :: "'a io \<Rightarrow> ('a \<Rightarrow> 'b io) \<Rightarrow> 'b io" where
  "io_bind m f =
     (case m of
        (t, Inl e) \<Rightarrow> (t, Inl e)
      | (t, Inr x) \<Rightarrow> (case f x of (t', r) \<Rightarrow> (t @ t', r)))"

definition io_then :: "unit io \<Rightarrow> 'b io \<Rightarrow> 'b io" where
  "io_then m k = io_bind m (\<lambda>_. k)"

definition try_except :: "'a io \<Rightarrow> (exn \<Rightarrow> 'a io option) \<Rightarrow> 'a io" where
  "try_except m handler =
     (case m of
        (t, Inr x) \<Rightarrow> (t, Inr x)
      | (t, Inl e) \<Rightarrow>
          (case handler e of
             None \<Rightarrow> (t, Inl e)
           | Some h \<Rightarrow> (case h of (t', r) \<Rightarrow> (t @ t', r))))"

text \<open>
  \<^verbatim>\<open>for x in xs: body(x)\<close>: an exception ends the loop.
\<close>

fun for_loop :: "'a list \<Rightarrow> ('a \<Rightarrow> unit io) \<Rightarrow> unit io" where
  "for_loop [] body = io_return ()"
| "for_loop (x # xs) body = io_then (body x) (for_loop xs body)"

text \<open>
  \<^verbatim>\<open>d[key]\<close>, which raises \<^verbatim>\<open>KeyError\<close> for a missing key.
\<close>

definition getitem :: "(string \<times> 'v) list \<Rightarrow> string \<Rightarrow> 'v io" where
  "getitem d k = (case map_of d k of None \<Rightarrow> io_raise (KeyError k) | Some v \<Rightarrow> io_return v)"

text \<open>
  A call of an overridable method through \<^verbatim>\<open>self\<close>: the mark, then the method's body.
\<close>

definition call :: "hook \<Rightarrow> unit io \<Rightarrow> unit io" where
  "call h body = io_then (perform (Call h)) body"

text \<open>
  The channel layer of a consumer, by what the code asks of it: whether it has the
  attributes \<^verbatim>\<open>group_add\<close> and \<^verbatim>\<open>group_discard\<close>. A consumer without a configured
  layer has \<^verbatim>\<open>channel_layer = None\<close>.
\<close>

record channel_layer =
  has_group_add :: bool
  has_group_discard :: bool

text \<open>
  An instance: the class attribute \<^verbatim>\<open>groups\<close>, the layer, the channel name, the child
  tasks of a demultiplexer (\<^verbatim>\<open>_child_application_tasks\<close>, from stream name to task), and
  the overridable methods. A hook is given by what it does: its effects and its outcome.
\<close>

record consumer =
  groups :: "string list"
  channel_layer :: "channel_layer option"
  channel_name :: string
  child_application_tasks :: "(string \<times> task) list"
  connect :: "unit io"
  receive :: "pyval \<Rightarrow> pyval \<Rightarrow> unit io"
  disconnect :: "pyval \<Rightarrow> unit io"
  receive_json :: "json \<Rightarrow> unit io"

text \<open>
  Modelled from the spec: the channel layer is not part of the sources at hand; its
  \<^verbatim>\<open>group_add(group, identity)\<close> and \<^verbatim>\<open>group_discard(group, identity)\<close> are one
  uninterpreted effect each. In
  \<^verbatim>\<open>self.channel_layer.group_add(group, self.channel_name)\<close> the attribute lookup raises
  \<^verbatim>\<open>AttributeError\<close> when the layer is \<^verbatim>\<open>None\<close> or has no such method.
\<close>

definition group_add :: "consumer \<Rightarrow> string \<Rightarrow> unit io" where
  "group_add self grp =
     (case channel_layer self of
        None \<Rightarrow> io_raise AttributeError
      | Some layer \<Rightarrow>
          if has_group_add layer then perform (GroupAdd grp (channel_name self))
          else io_raise AttributeError)"

definition group_discard :: "consumer \<Rightarrow> string \<Rightarrow> unit io" where
  "group_discard self grp =
     (case channel_layer self of
        None \<Rightarrow> io_raise AttributeError
      | Some layer \<Rightarrow>
          if has_group_discard layer then perform (GroupDiscard grp (channel_name self))
          else io_raise AttributeError)"

text \<open>
  \<^verbatim>\<open>json.loads\<close> applied to an argument of any type: a string is parsed, \<^verbatim>\<open>bytes\<close> would
  be decoded first (not represented here), anything else is a \<^verbatim>\<open>TypeError\<close>.
\<close>

definition json_loads :: "pyval \<Rightarrow> exn + json" where
  "json_loads s =
     (case s of
        PStr t \<Rightarrow> loads t
      | PBytes b \<Rightarrow> Inl NotModelled
      | _ \<Rightarrow> Inl TypeError)"

text \<open>
  A pure result as a computation without effects.
\<close>

definition lift :: "exn + 'a \<Rightarrow> 'a io" where
  "lift r = ([], r)"

section \<open>WebsocketConsumer\<close>

text \<open>
  \<^verbatim>\<open>def accept(self): super().send({"type": "websocket.accept"})\<close>
\<close>

definition WebsocketConsumer_accept :: "unit io" where
  "WebsocketConsumer_accept = perform (Send [(''type'', PStr ''websocket.accept'')])"

text \<open>
  \<^verbatim>\<open>close(code=None)\<close>: the code is sent unless it is \<^verbatim>\<open>None\<close> or the object \<^verbatim>\<open>True\<close>.
\<close>

definition WebsocketConsumer_close :: "pyval \<Rightarrow> unit io" where
  "WebsocketConsumer_close code =
     (if code \<noteq> PNone \<and> code \<noteq> PBool True
      then perform (Send [(''type'', PStr ''websocket.close''), (''code'', code)])
      else perform (Send [(''type'', PStr ''websocket.close'')]))"

text \<open>
  \<^verbatim>\<open>websocket_connect\<close>: the groups are joined inside the first \<^verbatim>\<open>try\<close>, whose only
  clause turns \<^verbatim>\<open>AttributeError\<close> into \<^verbatim>\<open>InvalidChannelLayerError\<close>; then
  \<^verbatim>\<open>self.connect()\<close> runs inside the second, whose clauses answer \<^verbatim>\<open>AcceptConnection\<close>
  with \<^verbatim>\<open>self.accept()\<close> and \<^verbatim>\<open>DenyConnection\<close> with \<^verbatim>\<open>self.close()\<close>. Nothing follows
  a \<^verbatim>\<open>connect\<close> that returns.
\<close>

definition WebsocketConsumer_websocket_connect :: "consumer \<Rightarrow> message \<Rightarrow> unit io" where
  "WebsocketConsumer_websocket_connect self message =
     io_then
       (try_except (for_loop (groups self) (\<lambda>grp. group_add self grp))
          (\<lambda>e. if e = AttributeError
                then Some (io_raise (InvalidChannelLayerError
                       ''BACKEND is unconfigured or doesn't support groups''))
                else None))
       (try_except (call ConnectHook (connect self))
          (\<lambda>e. if e = AcceptConnection then Some WebsocketConsumer_accept
                else if e = DenyConnection then Some (WebsocketConsumer_close PNone)
                else None))"

text \<open>
  The \<^verbatim>\<open>connect\<close> of the class, which an application may override: \<^verbatim>\<open>self.accept()\<close>.
\<close>

definition WebsocketConsumer_connect :: "unit io" where
  "WebsocketConsumer_connect = WebsocketConsumer_accept"

text \<open>
  \<^verbatim>\<open>websocket_receive\<close> passes \<^verbatim>\<open>message["text"]\<close> when the key is there and
  \<^verbatim>\<open>message["bytes"]\<close> otherwise; the argument left out defaults to \<^verbatim>\<open>None\<close>.
\<close>

definition WebsocketConsumer_websocket_receive :: "consumer \<Rightarrow> message \<Rightarrow> unit io" where
  "WebsocketConsumer_websocket_receive self message =
     (if dict_contains message ''text''
      then io_bind (getitem message ''text'')
             (\<lambda>text_data. call (ReceiveHook text_data PNone) (receive self text_data PNone))
      else io_bind (getitem message ''bytes'')
             (\<lambda>bytes_data. call (ReceiveHook PNone bytes_data) (receive self PNone bytes_data)))"

definition WebsocketConsumer_receive :: "pyval \<Rightarrow> pyval \<Rightarrow> unit io" where
  "WebsocketConsumer_receive text_data bytes_data = io_return ()"

text \<open>
  \<^verbatim>\<open>send(text_data=None, bytes_data=None, close=False)\<close>: the text if there is one, else
  the bytes, else \<^verbatim>\<open>ValueError\<close>; then \<^verbatim>\<open>self.close(close)\<close> when \<^verbatim>\<open>close\<close> is true.
\<close>

definition WebsocketConsumer_send :: "pyval \<Rightarrow> pyval \<Rightarrow> pyval \<Rightarrow> unit io" where
  "WebsocketConsumer_send text_data bytes_data close =
     io_then
       (if text_data \<noteq> PNone
        then perform (Send [(''type'', PStr ''websocket.send''), (''text'', text_data)])
        else if bytes_data \<noteq> PNone
        then perform (Send [(''type'', PStr ''websocket.send''), (''bytes'', bytes_data)])
        else io_raise (ValueError ''You must pass one of bytes_data or text_data''))
       (if truthy close then WebsocketConsumer_close close else io_return ())"

text \<open>
  \<^verbatim>\<open>websocket_disconnect\<close>: the groups are left, \<^verbatim>\<open>self.disconnect(message["code"])\<close>
  runs, and \<^verbatim>\<open>StopConsumer\<close> is raised.
\<close>

definition WebsocketConsumer_websocket_disconnect :: "consumer \<Rightarrow> message \<Rightarrow> unit io" where
  "WebsocketConsumer_websocket_disconnect self message =
     io_then
       (try_except (for_loop (groups self) (\<lambda>grp. group_discard self grp))
          (\<lambda>e. if e = AttributeError
                then Some (io_raise (InvalidChannelLayerError
                       ''BACKEND is unconfigured or doesn't support groups''))
                else None))
       (io_bind (getitem message ''code'')
          (\<lambda>code. io_then (call (DisconnectHook code) (disconnect self code))
                     (io_raise StopConsumer)))"

definition WebsocketConsumer_disconnect :: "pyval \<Rightarrow> unit io" where
  "WebsocketConsumer_disconnect code = io_return ()"

section \<open>JsonWebsocketConsumer\<close>

text \<open>
  The class methods \<^verbatim>\<open>decode_json\<close> and \<^verbatim>\<open>encode_json\<close>.
\<close>

definition JsonWebsocketConsumer_decode_json :: "pyval \<Rightarrow> exn + json" where
  "JsonWebsocketConsumer_decode_json text_data = json_loads text_data"

definition JsonWebsocketConsumer_encode_json :: "json \<Rightarrow> string" where
  "JsonWebsocketConsumer_encode_json content = dumps content"

text \<open>
  \<^verbatim>\<open>receive\<close> of the JSON consumer tests the truth value of \<^verbatim>\<open>text_data\<close>, decodes it and
  calls \<^verbatim>\<open>self.receive_json\<close>; otherwise it raises \<^verbatim>\<open>ValueError\<close>.
\<close>

definition JsonWebsocketConsumer_receive :: "consumer \<Rightarrow> pyval \<Rightarrow> pyval \<Rightarrow> unit io" where
  "JsonWebsocketConsumer_receive self text_data bytes_data =
     (if truthy text_data
      then io_bind (lift (JsonWebsocketConsumer_decode_json text_data))
             (\<lambda>content. call (ReceiveJsonHook content) (receive_json self content))
      else io_raise (ValueError ''No text section for incoming WebSocket frame!''))"

definition JsonWebsocketConsumer_receive_json :: "json \<Rightarrow> unit io" where
  "JsonWebsocketConsumer_receive_json content = io_return ()"

text \<open>
  \<^verbatim>\<open>send_json(content, close=False)\<close> sends the encoded content as text.
\<close>

definition JsonWebsocketConsumer_send_json :: "json \<Rightarrow> pyval \<Rightarrow> unit io" where
  "JsonWebsocketConsumer_send_json content close =
     WebsocketConsumer_send (PStr (JsonWebsocketConsumer_encode_json content)) PNone close"

text \<open>
  Method resolution for an instance of the class: \<^verbatim>\<open>self.receive\<close> is the method of the
  class, the other hooks are the instance's.
\<close>

definition JsonWebsocketConsumer :: "consumer \<Rightarrow> consumer" where
  "JsonWebsocketConsumer self = self\<lparr>receive := JsonWebsocketConsumer_receive self\<rparr>"

section \<open>AsyncWebsocketConsumer\<close>

text \<open>
  The methods of the asynchronous class, in the order of the source; each is the
  synchronous method with \<^verbatim>\<open>await\<close> in front of the calls.
\<close>

definition AsyncWebsocketConsumer_accept :: "unit io" where
  "AsyncWebsocketConsumer_accept = perform (Send [(''type'', PStr ''websocket.accept'')])"

definition AsyncWebsocketConsumer_close :: "pyval \<Rightarrow> unit io" where
  "AsyncWebsocketConsumer_close code =
     (if code \<noteq> PNone \<and> code \<noteq> PBool True
      then perform (Send [(''type'', PStr ''websocket.close''), (''code'', code)])
      else perform (Send [(''type'', PStr ''websocket.close'')]))"

definition AsyncWebsocketConsumer_websocket_connect :: "consumer \<Rightarrow> message \<Rightarrow> unit io" where
  "AsyncWebsocketConsumer_websocket_connect self message =
     io_then
       (try_except (for_loop (groups self) (\<lambda>grp. group_add self grp))
          (\<lambda>e. if e = AttributeError
                then Some (io_raise (InvalidChannelLayerError
                       ''BACKEND is unconfigured or doesn't support groups''))
                else None))
       (try_except (call ConnectHook (connect self))
          (\<lambda>e. if e = AcceptConnection then Some AsyncWebsocketConsumer_accept
                else if e = DenyConnection then Some (AsyncWebsocketConsumer_close PNone)
                else None))"

definition AsyncWebsocketConsumer_connect :: "unit io" where
  "AsyncWebsocketConsumer_connect = AsyncWebsocketConsumer_accept"

definition AsyncWebsocketConsumer_websocket_receive :: "consumer \<Rightarrow> message \<Rightarrow> unit io" where
  "AsyncWebsocketConsumer_websocket_receive self message =
     (if dict_contains message ''text''
      then io_bind (getitem message ''text'')
             (\<lambda>text_data. call (ReceiveHook text_data PNone) (receive self text_data PNone))
      else io_bind (getitem message ''bytes'')
             (\<lambda>bytes_data. call (ReceiveHook PNone bytes_data) (receive self PNone bytes_data)))"

definition AsyncWebsocketConsumer_receive :: "pyval \<Rightarrow> pyval \<Rightarrow> unit io" where
  "AsyncWebsocketConsumer_receive text_data bytes_data = io_return ()"

definition AsyncWebsocketConsumer_send :: "pyval \<Rightarrow> pyval \<Rightarrow> pyval \<Rightarrow> unit io" where
  "AsyncWebsocketConsumer_send text_data bytes_data close =
     io_then
       (if text_data \<noteq> PNone
        then perform (Send [(''type'', PStr ''websocket.send''), (''text'', text_data)])
        else if bytes_data \<noteq> PNone
        then perform (Send [(''type'', PStr ''websocket.send''), (''bytes'', bytes_data)])
        else io_raise (ValueError ''You must pass one of bytes_data or text_data''))
       (if truthy close then AsyncWebsocketConsumer_close close else io_return ())"

definition AsyncWebsocketConsumer_websocket_disconnect :: "consumer \<Rightarrow> message \<Rightarrow> unit io" where
  "AsyncWebsocketConsumer_websocket_disconnect self message =
     io_then
       (try_except (for_loop (groups self) (\<lambda>grp. group_discard self grp))
          (\<lambda>e. if e = AttributeError
                then Some (io_raise (InvalidChannelLayerError
                       ''BACKEND is unconfigured or doesn't support groups''))
                else None))
       (io_bind (getitem message ''code'')
          (\<lambda>code. io_then (call (DisconnectHook code) (disconnect self code))
                     (io_raise StopConsumer)))"

definition AsyncWebsocketConsumer_disconnect :: "pyval \<Rightarrow> unit io" where
  "AsyncWebsocketConsumer_disconnect code = io_return ()"

section \<open>AsyncJsonWebsocketConsumer\<close>

definition AsyncJsonWebsocketConsumer_decode_json :: "pyval \<Rightarrow> exn + json" where
  "AsyncJsonWebsocketConsumer_decode_json text_data = json_loads text_data"

definition AsyncJsonWebsocketConsumer_encode_json :: "json \<Rightarrow> string" where
  "AsyncJsonWebsocketConsumer_encode_json content = dumps content"

definition AsyncJsonWebsocketConsumer_receive :: "consumer \<Rightarrow> pyval \<Rightarrow> pyval \<Rightarrow> unit io" where
  "AsyncJsonWebsocketConsumer_receive self text_data bytes_data =
     (if truthy text_data
      then io_bind (lift (AsyncJsonWebsocketConsumer_decode_json text_data))
             (\<lambda>content. call (ReceiveJsonHook content) (receive_json self content))
      else io_raise (ValueError ''No text section for incoming WebSocket frame!''))"

definition AsyncJsonWebsocketConsumer_receive_json :: "json \<Rightarrow> unit io" where
  "AsyncJsonWebsocketConsumer_receive_json content = io_return ()"


text \<open>
  Method resolution for an instance of the asynchronous JSON consumer.
\<close>

definition AsyncJsonWebsocketConsumer :: "consumer \<Rightarrow> consumer" where
  "AsyncJsonWebsocketConsumer self = self\<lparr>receive := AsyncJsonWebsocketConsumer_receive self\<rparr>"

section \<open>AsyncJsonWebsocketDemultiplexer\<close>

text \<open>
  What \<^verbatim>\<open>asyncio.wait(tasks, return_when=ALL_COMPLETED, timeout=t)\<close> did, which the
  environment decides: every task finished, the timeout elapsed first (the call returns
  all the same), or the call raised.
\<close>

datatype wait_outcome = AllCompleted | TimedOut | WaitRaised exn

text \<open>
  \<^verbatim>\<open>asyncio.wait\<close> of the standard library. It refuses an empty collection with a
  \<^verbatim>\<open>ValueError\<close> before it waits.
\<close>

definition asyncio_wait :: "task list \<Rightarrow> nat \<Rightarrow> wait_outcome \<Rightarrow> unit io" where
  "asyncio_wait fs timeout outcome =
     (if fs = [] then io_raise (ValueError ''Set of coroutines/Futures is empty.'')
      else io_then (perform (AsyncioWait fs timeout))
             (case outcome of
                AllCompleted \<Rightarrow> io_return ()
              | TimedOut \<Rightarrow> io_return ()
              | WaitRaised e \<Rightarrow> io_raise e))"

text \<open>
  Modelled from the spec: \<^verbatim>\<open>send_upstream\<close> of the missing \<^verbatim>\<open>Demultiplexer\<close>
  dispatches an event to the child application of a stream, spawning it on demand. It is
  one uninterpreted effect.
\<close>

definition send_upstream :: "json \<Rightarrow> message \<Rightarrow> unit io" where
  "send_upstream stream message = perform (SendUpstream stream message)"

text \<open>
  Modelled from the spec: the fan-out of the missing \<^verbatim>\<open>Demultiplexer\<close> to every child
  application, one uninterpreted effect.
\<close>

definition send_to_all_upstream :: "message \<Rightarrow> unit io" where
  "send_to_all_upstream message = perform (SendToAllUpstream message)"

text \<open>
  Modelled from the spec: \<^verbatim>\<open>base_send\<close> of the missing \<^verbatim>\<open>AsyncConsumer\<close>, the emission of
  an event on the physical connection, one uninterpreted effect.
\<close>

definition base_send :: "message \<Rightarrow> unit io" where
  "base_send message = perform (BaseSend message)"

text \<open>
  \<^verbatim>\<open>application_close_timeout = 5\<close>
\<close>

definition application_close_timeout :: nat where
  "application_close_timeout = 5"

text \<open>
  The demultiplexer accepts the socket at once and tells every stream application.
\<close>

definition AsyncJsonWebsocketDemultiplexer_websocket_connect :: "consumer \<Rightarrow> message \<Rightarrow> unit io" where
  "AsyncJsonWebsocketDemultiplexer_websocket_connect self message =
     io_then (base_send [(''type'', PStr ''websocket.accept'')])
       (send_to_all_upstream message)"

text \<open>
  \<^verbatim>\<open>receive_json\<close>: a dictionary with the keys \<^verbatim>\<open>stream\<close> and \<^verbatim>\<open>payload\<close> is routed to
  its stream, with the payload encoded again as the text of a \<^verbatim>\<open>websocket.receive\<close>
  event; anything else raises \<^verbatim>\<open>ValueError\<close>.
\<close>

definition AsyncJsonWebsocketDemultiplexer_receive_json :: "json \<Rightarrow> unit io" where
  "AsyncJsonWebsocketDemultiplexer_receive_json content =
     (case content of
        JDict d \<Rightarrow>
          if dict_contains d ''stream'' \<and> dict_contains d ''payload''
          then io_bind (getitem d ''stream'') (\<lambda>stream.
               io_bind (getitem d ''payload'') (\<lambda>payload.
                 send_upstream stream
                   [(''type'', PStr ''websocket.receive''),
                    (''text'', PStr (AsyncJsonWebsocketConsumer_encode_json payload))]))
          else io_raise (ValueError ''Invalid multiplexed **frame received (no channel/payload key)'')
      | _ \<Rightarrow> io_raise (ValueError ''Invalid multiplexed **frame received (no channel/payload key)''))"


text \<open>
  \<^verbatim>\<open>websocket_accept\<close>: the accept of a child is not sent on.
\<close>

definition AsyncJsonWebsocketDemultiplexer_websocket_accept :: "message \<Rightarrow> string \<Rightarrow> unit io" where
  "AsyncJsonWebsocketDemultiplexer_websocket_accept message stream_name = io_return ()"

text \<open>
  \<^verbatim>\<open>websocket_disconnect\<close>: the event goes to every child, the child tasks are awaited
  under the timeout, a \<^verbatim>\<open>TimeoutError\<close> is passed over, and the disconnect of the base
  class runs.
\<close>

definition AsyncJsonWebsocketDemultiplexer_websocket_disconnect ::
  "consumer \<Rightarrow> wait_outcome \<Rightarrow> message \<Rightarrow> unit io" where
  "AsyncJsonWebsocketDemultiplexer_websocket_disconnect self outcome message =
     io_then (send_to_all_upstream message)
       (io_then
          (try_except
             (asyncio_wait (map snd (child_application_tasks self)) application_close_timeout outcome)
             (\<lambda>e. if e = TimeoutError then Some (io_return ()) else None))
          (AsyncWebsocketConsumer_websocket_disconnect self message))"

text \<open>
  Method resolution for a demultiplexer: \<^verbatim>\<open>self.receive_json\<close> is the demultiplexer's,
  \<^verbatim>\<open>self.receive\<close> is the JSON consumer's; \<^verbatim>\<open>websocket_receive\<close> is inherited.
\<close>

definition AsyncJsonWebsocketDemultiplexer :: "consumer \<Rightarrow> consumer" where
  "AsyncJsonWebsocketDemultiplexer self =
     AsyncJsonWebsocketConsumer
       (self\<lparr>receive_json := AsyncJsonWebsocketDemultiplexer_receive_json\<rparr>)"

definition AsyncJsonWebsocketDemultiplexer_websocket_receive :: "consumer \<Rightarrow> message \<Rightarrow> unit io" where
  "AsyncJsonWebsocketDemultiplexer_websocket_receive self message =
     AsyncWebsocketConsumer_websocket_receive (AsyncJsonWebsocketDemultiplexer self) message"

section \<open>Vocabulary of the statements\<close>

text \<open>
  The channel layer is configured and has the method.
\<close>

definition supports_group_add :: "consumer \<Rightarrow> bool" where
  "supports_group_add self =
     (case channel_layer self of None \<Rightarrow> False | Some layer \<Rightarrow> has_group_add layer)"

definition supports_group_discard :: "consumer \<Rightarrow> bool" where
  "supports_group_discard self =
     (case channel_layer self of None \<Rightarrow> False | Some layer \<Rightarrow> has_group_discard layer)"

text \<open>
  An outbound event of type \<^verbatim>\<open>websocket.send\<close>.
\<close>

definition is_websocket_send :: "effect \<Rightarrow> bool" where
  "is_websocket_send e =
     (case e of Send m \<Rightarrow> map_of m ''type'' = Some (PStr ''websocket.send'') | _ \<Rightarrow> False)"

text \<open>
  An instance with the hooks of the base classes: no application override.
\<close>

definition WebsocketConsumer :: "string list \<Rightarrow> channel_layer option \<Rightarrow> string \<Rightarrow> consumer" where
  "WebsocketConsumer gs layer name =
     \<lparr>groups = gs, channel_layer = layer, channel_name = name, child_application_tasks = [],
      connect = WebsocketConsumer_connect, receive = WebsocketConsumer_receive,
      disconnect = WebsocketConsumer_disconnect, receive_json = JsonWebsocketConsumer_receive_json\<rparr>"

definition AsyncWebsocketConsumer :: "string list \<Rightarrow> channel_layer option \<Rightarrow> string \<Rightarrow> consumer" where
  "AsyncWebsocketConsumer gs layer name =
     \<lparr>groups = gs, channel_layer = layer, channel_name = name, child_application_tasks = [],
      connect = AsyncWebsocketConsumer_connect, receive = AsyncWebsocketConsumer_receive,
      disconnect = AsyncWebsocketConsumer_disconnect,
      receive_json = AsyncJsonWebsocketConsumer_receive_json\<rparr>"


section \<open>Properties of the JSON codec\<close>

subsection \<open>Integers\<close>












lemma takeWhile_digits:
  "\<forall>c \<in> set ds. is_digit c \<Longrightarrow> number_end rest \<Longrightarrow> takeWhile is_digit (ds @ rest) = ds"
  by (cases rest) (auto simp: number_end_def takeWhile_append)

lemma dropWhile_digits:
  "\<forall>c \<in> set ds. is_digit c \<Longrightarrow> number_end rest \<Longrightarrow> dropWhile is_digit (ds @ rest) = rest"
  by (cases rest) (auto simp: number_end_def dropWhile_append)





subsection \<open>Strings\<close>







subsection \<open>Decoding an encoded value\<close>







lemma skip_ws_punct [simp]:
  "skip_ws (CHR '','' # s) = CHR '','' # s"
  "skip_ws (CHR '']'' # s) = CHR '']'' # s"
  "skip_ws (CHR ''}'' # s) = CHR ''}'' # s"
  "skip_ws (CHR '':'' # s) = CHR '':'' # s"
  "skip_ws (CHR 0x22 # s) = CHR 0x22 # s"
  by (simp_all add: skip_ws_def is_ws_def)

lemma number_end_punct [simp]:
  "number_end (CHR '','' # s)" "number_end (CHR '']'' # s)" "number_end (CHR ''}'' # s)"
  "number_end []"
  by (simp_all add: number_end_def is_digit_def)











subsection \<open>The decoder always has fuel left\<close>

lemma length_skip_ws: "length (skip_ws s) \<le> length s"
  by (simp add: skip_ws_def length_dropWhile_le)

lemma skip_ws_Cons_length: "skip_ws s = c # r \<Longrightarrow> length r < length s"
  using length_skip_ws [of s] by simp

lemma cons_chunk_Inr: "cons_chunk ch x = Inr (t, r) \<Longrightarrow> \<exists>t'. x = Inr (t', r)"
  by (auto simp: cons_chunk_def split: sum.splits)

lemma scanstring_length: "scanstring s = Inr (t, r) \<Longrightarrow> length r < length s"
proof (induction s arbitrary: t r rule: scanstring.induct)
  case 1
  then show ?case by simp
next
  case (2 c cs)
  consider (q) "c = CHR 0x22" | (b) "c \<noteq> CHR 0x22" "c = CHR 0x5C"
    | (o) "c \<noteq> CHR 0x22" "c \<noteq> CHR 0x5C"
    by blast
  then show ?case
  proof cases
    case q
    with "2.prems" show ?thesis by simp
  next
    case b
    from "2.prems" b obtain esc cs' where cs: "cs = esc # cs'"
      by (cases cs) auto
    show ?thesis
    proof (cases "esc = CHR ''u''")
      case True
      from "2.prems" b cs True obtain h1 h2 h3 h4 rest where r: "cs' = h1 # h2 # h3 # h4 # rest"
        by (auto split: list.splits)
      from "2.prems" b cs True r obtain uni where u: "decode_uXXXX h1 h2 h3 h4 = Some uni"
        by (auto split: option.splits)
      from "2.prems" b cs True r u have lt: "uni < 256"
        by (auto split: if_splits)
      from "2.prems" b cs True r u lt obtain t' where "scanstring rest = Inr (t', r)"
        by (auto dest: cons_chunk_Inr)
      then have "length r < length rest"
        using "2.IH"(1) [OF b(1) b(2) cs True r refl refl refl u lt] by simp
      with cs r show ?thesis by simp
    next
      case False
      from "2.prems" b cs False obtain ch where u: "BACKSLASH esc = Some ch"
        by (auto split: option.splits)
      from "2.prems" b cs False u obtain t' where "scanstring cs' = Inr (t', r)"
        by (auto dest: cons_chunk_Inr)
      then have "length r < length cs'"
        using "2.IH"(2) [OF b(1) b(2) cs False u] by simp
      with cs show ?thesis by simp
    qed
  next
    case o
    from "2.prems" o have nc: "\<not> (of_char c :: nat) < 0x20"
      by (auto split: if_splits)
    from "2.prems" o nc obtain t' where "scanstring cs = Inr (t', r)"
      by (auto dest: cons_chunk_Inr)
    then have "length r < length cs"
      using "2.IH"(3) [OF o(1) o(2) nc] by simp
    then show ?thesis by simp
  qed
qed

lemma length_dropWhile_Suc:
  "length (dropWhile P xs) < Suc (length xs)"
  "length (dropWhile P xs) < Suc (Suc (length xs))"
  using length_dropWhile_le [of P xs] by simp_all

lemma match_number_length: "match_number s = Some (Inr (v, r)) \<Longrightarrow> length r < length s"
  by (cases s)
    (auto simp: match_number_def Let_def length_dropWhile_Suc split: list.splits if_splits)

lemma parse_length:
  shows "scan_once n s = Inr (v, r) \<Longrightarrow> length r < length s"
    and "JSONArray n1 s1 = Inr (vs, r1) \<Longrightarrow> length r1 < length s1"
    and "JSONObject n2 s2 = Inr (ps, r2) \<Longrightarrow> length r2 < length s2"
proof (induction n s and n1 s1 and n2 s2 arbitrary: v r and vs r1 and ps r2
    rule: scan_once_JSONArray_JSONObject.induct)
  case (1 s)
  then show ?case by simp
next
  case (2 n s)
  show ?case
  proof (cases s)
    case Nil
    with "2.prems" show ?thesis by simp
  next
    case (Cons c cs)
    consider (str) "c = CHR 0x22" | (obj) "c \<noteq> CHR 0x22" "c = CHR ''{''"
      | (arr) "c \<noteq> CHR 0x22" "c \<noteq> CHR ''{''" "c = CHR ''[''"
      | (other) "c \<noteq> CHR 0x22" "c \<noteq> CHR ''{''" "c \<noteq> CHR ''[''"
      by blast
    then show ?thesis
    proof cases
      case str
      with "2.prems" Cons show ?thesis
        by (auto split: sum.splits dest: scanstring_length)
    next
      case obj
      from "2.prems" Cons obj obtain c' r' where sk: "skip_ws cs = c' # r'"
        by (auto split: list.splits)
      have l: "length r' < length cs" using sk by (rule skip_ws_Cons_length)
      show ?thesis
      proof (cases "c' = CHR ''}''")
        case True
        with "2.prems" Cons obj sk l show ?thesis by auto
      next
        case False
        with "2.prems" Cons obj sk obtain ps where q: "c' = CHR 0x22"
          and j: "JSONObject n r' = Inr (ps, r)"
          by (auto split: sum.splits if_splits)
        have "length r < length r'"
          using "2.IH"(1) [OF Cons obj(1) obj(2) sk False q j] .
        with l Cons show ?thesis by simp
      qed
    next
      case arr
      from "2.prems" Cons arr obtain c' r' where sk: "skip_ws cs = c' # r'"
        by (auto split: list.splits)
      have l: "length (c' # r') \<le> length cs" using length_skip_ws [of cs] sk by simp
      show ?thesis
      proof (cases "c' = CHR '']''")
        case True
        with "2.prems" Cons arr sk l show ?thesis by auto
      next
        case False
        with "2.prems" Cons arr sk obtain ws where j: "JSONArray n (c' # r') = Inr (ws, r)"
          by (auto split: sum.splits if_splits)
        have "length r < length (c' # r')"
          using "2.IH"(2) [OF Cons arr(1) arr(2) arr(3) sk False j] .
        with l Cons show ?thesis by simp
      qed
    next
      case other
      with "2.prems" Cons show ?thesis
        by (auto split: if_splits option.splits dest: match_number_length)
    qed
  qed
next
  case (3 s)
  then show ?case by simp
next
  case (4 n s)
  from "4.prems" obtain v r where a: "scan_once n s = Inr (v, r)"
    by (auto split: sum.splits)
  then have l: "length r < length s" by (rule "4.IH"(1))
  from "4.prems" a obtain c r' where b: "skip_ws r = c # r'"
    by (auto split: list.splits)
  have l': "length r' < length r" using b by (rule skip_ws_Cons_length)
  show ?case
  proof (cases "c = CHR '']''")
    case True
    with "4.prems" a b l l' show ?thesis by auto
  next
    case False
    with "4.prems" a b obtain ws where c: "c = CHR '',''" and d: "JSONArray n (skip_ws r') = Inr (ws, r1)"
      by (auto split: sum.splits if_splits)
    have "length r1 < length (skip_ws r')"
      using "4.IH"(2) [OF a refl b False c d] .
    with l l' length_skip_ws [of r'] show ?thesis by simp
  qed
next
  case (5 s)
  then show ?case by simp
next
  case (6 n s)
  from "6.prems" obtain key r where a: "scanstring s = Inr (key, r)"
    by (auto split: sum.splits)
  then have l: "length r < length s" by (rule scanstring_length)
  from "6.prems" a obtain c ra where b: "skip_ws r = c # ra" and c: "\<not> c \<noteq> CHR '':''"
    by (auto split: list.splits if_splits)
  have la: "length ra < length r" using b by (rule skip_ws_Cons_length)
  from "6.prems" a b c obtain v rb where d: "scan_once n (skip_ws ra) = Inr (v, rb)"
    by (auto split: sum.splits)
  have lb: "length rb < length (skip_ws ra)"
    using "6.IH"(1) [OF a refl b c d] .
  from "6.prems" a b c d obtain c' rc where e: "skip_ws rb = c' # rc"
    by (auto split: list.splits)
  have lc: "length rc < length rb" using e by (rule skip_ws_Cons_length)
  show ?case
  proof (cases "c' = CHR ''}''")
    case True
    with "6.prems" a b c d e l la lb lc length_skip_ws [of ra] show ?thesis by auto
  next
    case False
    with "6.prems" a b c d e obtain q rd qs where f: "c' = CHR '',''" and g: "skip_ws rc = q # rd"
      and h: "\<not> q \<noteq> CHR 0x22" and i: "JSONObject n rd = Inr (qs, r2)"
      by (auto split: sum.splits if_splits list.splits)
    have "length r2 < length rd"
      using "6.IH"(2) [OF a refl b c d refl e False f g h i] .
    with l la lb lc length_skip_ws [of ra] skip_ws_Cons_length [OF g] show ?thesis by simp
  qed
qed

lemma cons_chunk_fuel: "x \<noteq> Inl OutOfFuel \<Longrightarrow> cons_chunk ch x \<noteq> Inl OutOfFuel"
  by (auto simp: cons_chunk_def split: sum.splits)

lemma scanstring_fuel: "scanstring s \<noteq> Inl OutOfFuel"
proof (induction s rule: scanstring.induct)
  case 1
  then show ?case by simp
next
  case (2 c cs)
  consider (q) "c = CHR 0x22" | (b) "c \<noteq> CHR 0x22" "c = CHR 0x5C"
    | (o) "c \<noteq> CHR 0x22" "c \<noteq> CHR 0x5C"
    by blast
  then show ?case
  proof cases
    case q
    then show ?thesis by simp
  next
    case b
    show ?thesis
    proof (cases cs)
      case Nil
      with b show ?thesis by simp
    next
      case (Cons esc cs')
      show ?thesis
      proof (cases "esc = CHR ''u''")
        case True
        show ?thesis
        proof (cases "\<exists>h1 h2 h3 h4 rest uni. cs' = h1 # h2 # h3 # h4 # rest
              \<and> decode_uXXXX h1 h2 h3 h4 = Some uni \<and> uni < 256")
          case False
          with b Cons True show ?thesis
            by (auto split: list.splits option.splits)
        next
          case ex: True
          then obtain h1 h2 h3 h4 rest uni where r: "cs' = h1 # h2 # h3 # h4 # rest"
            and u: "decode_uXXXX h1 h2 h3 h4 = Some uni" and lt: "uni < 256" by blast
          have "scanstring rest \<noteq> Inl OutOfFuel"
            using "2.IH"(1) [OF b(1) b(2) Cons True r refl refl refl u lt] .
          with b Cons True r u lt show ?thesis by (simp add: cons_chunk_fuel)
        qed
      next
        case False
        show ?thesis
        proof (cases "BACKSLASH esc")
          case None
          with b Cons False show ?thesis by simp
        next
          case (Some ch)
          have "scanstring cs' \<noteq> Inl OutOfFuel"
            using "2.IH"(2) [OF b(1) b(2) Cons False Some] .
          with b Cons False Some show ?thesis by (simp add: cons_chunk_fuel)
        qed
      qed
    qed
  next
    case o
    show ?thesis
    proof (cases "(of_char c :: nat) < 0x20")
      case True
      with o show ?thesis by simp
    next
      case False
      have "scanstring cs \<noteq> Inl OutOfFuel" using "2.IH"(3) [OF o(1) o(2) False] .
      with o False show ?thesis by (simp add: cons_chunk_fuel)
    qed
  qed
qed

lemma match_number_fuel: "match_number s \<noteq> Some (Inl OutOfFuel)"
  by (auto simp: match_number_def Let_def split: list.splits)

lemma parse_fuel:
  shows "2 * length s < n \<Longrightarrow> scan_once n s \<noteq> Inl OutOfFuel"
    and "2 * length s1 + 1 < n1 \<Longrightarrow> JSONArray n1 s1 \<noteq> Inl OutOfFuel"
    and "2 * length s2 + 1 < n2 \<Longrightarrow> JSONObject n2 s2 \<noteq> Inl OutOfFuel"
proof (induction n s and n1 s1 and n2 s2 rule: scan_once_JSONArray_JSONObject.induct)
  case (1 s)
  then show ?case by simp
next
  case (2 n s)
  show ?case
  proof (cases s)
    case Nil
    then show ?thesis by simp
  next
    case (Cons c cs)
    consider (str) "c = CHR 0x22" | (obj) "c \<noteq> CHR 0x22" "c = CHR ''{''"
      | (arr) "c \<noteq> CHR 0x22" "c \<noteq> CHR ''{''" "c = CHR ''[''"
      | (other) "c \<noteq> CHR 0x22" "c \<noteq> CHR ''{''" "c \<noteq> CHR ''[''"
      by blast
    then show ?thesis
    proof cases
      case str
      with Cons scanstring_fuel [of cs] show ?thesis
        by (auto split: sum.splits)
    next
      case obj
      show ?thesis
      proof (cases "skip_ws cs")
        case Nil
        with Cons obj show ?thesis by simp
      next
        case sk: (Cons c' r')
        have l: "length r' < length cs" using sk by (rule skip_ws_Cons_length)
        show ?thesis
        proof (cases "c' \<noteq> CHR ''}'' \<and> c' = CHR 0x22")
          case False
          with Cons obj sk show ?thesis by auto
        next
          case True
          have "JSONObject n r' \<noteq> Inl OutOfFuel"
            using "2.IH"(1) [OF Cons obj(1) obj(2) sk] True l "2.prems" Cons by simp
          with Cons obj sk True show ?thesis by (auto split: sum.splits)
        qed
      qed
    next
      case arr
      show ?thesis
      proof (cases "skip_ws cs")
        case Nil
        with Cons arr show ?thesis by simp
      next
        case sk: (Cons c' r')
        have l: "length (c' # r') \<le> length cs" using length_skip_ws [of cs] sk by simp
        show ?thesis
        proof (cases "c' = CHR '']''")
          case True
          with Cons arr sk show ?thesis by auto
        next
          case False
          have "JSONArray n (c' # r') \<noteq> Inl OutOfFuel"
            using "2.IH"(2) [OF Cons arr(1) arr(2) arr(3) sk False] l "2.prems" Cons by simp
          with Cons arr sk False show ?thesis by (auto split: sum.splits)
        qed
      qed
    next
      case other
      with Cons match_number_fuel [of s] show ?thesis
        by (auto split: option.splits)
    qed
  qed
next
  case (3 s)
  then show ?case by simp
next
  case (4 n s)
  have a: "scan_once n s \<noteq> Inl OutOfFuel" using "4.IH"(1) "4.prems" by simp
  show ?case
  proof (cases "scan_once n s")
    case (Inl e)
    with a show ?thesis by simp
  next
    case (Inr p)
    obtain v r where p: "p = (v, r)" by (cases p)
    have l: "length r < length s" using Inr p parse_length(1) by blast
    show ?thesis
    proof (cases "skip_ws r")
      case Nil
      with Inr p show ?thesis by simp
    next
      case sk: (Cons c r')
      have l': "length r' < length r" using sk by (rule skip_ws_Cons_length)
      show ?thesis
      proof (cases "c \<noteq> CHR '']'' \<and> c = CHR '',''")
        case False
        with Inr p sk show ?thesis by auto
      next
        case True
        have "JSONArray n (skip_ws r') \<noteq> Inl OutOfFuel"
          using "4.IH"(2) [OF Inr [unfolded p] refl sk] True l l' length_skip_ws [of r'] "4.prems"
          by simp
        with Inr p sk True show ?thesis by (auto split: sum.splits)
      qed
    qed
  qed
next
  case (5 s)
  then show ?case by simp
next
  case (6 n s)
  show ?case
  proof (cases "scanstring s")
    case (Inl e)
    with scanstring_fuel [of s] show ?thesis by simp
  next
    case (Inr p)
    obtain key r where p: "p = (key, r)" by (cases p)
    have l: "length r < length s" using Inr p scanstring_length by blast
    show ?thesis
    proof (cases "skip_ws r")
      case Nil
      with Inr p show ?thesis by simp
    next
      case sk: (Cons c ra)
      have la: "length ra < length r" using sk by (rule skip_ws_Cons_length)
      show ?thesis
      proof (cases "c \<noteq> CHR '':''")
        case True
        with Inr p sk show ?thesis by simp
      next
        case colon: False
        have f1: "scan_once n (skip_ws ra) \<noteq> Inl OutOfFuel"
          using "6.IH"(1) [OF Inr [unfolded p] refl sk colon] l la length_skip_ws [of ra] "6.prems"
          by simp
        show ?thesis
        proof (cases "scan_once n (skip_ws ra)")
          case (Inl e)
          with f1 Inr p sk colon show ?thesis by simp
        next
          case v: (Inr q)
          obtain v rb where q: "q = (v, rb)" by (cases q)
          have lb: "length rb < length (skip_ws ra)" using v q parse_length(1) by blast
          show ?thesis
          proof (cases "skip_ws rb")
            case Nil
            with Inr p sk colon v q show ?thesis by simp
          next
            case sk2: (Cons c' rc)
            have lc: "length rc < length rb" using sk2 by (rule skip_ws_Cons_length)
            show ?thesis
            proof (cases "c' \<noteq> CHR ''}'' \<and> c' = CHR '',''")
              case False
              with Inr p sk colon v q sk2 show ?thesis by auto
            next
              case comma: True
              show ?thesis
              proof (cases "skip_ws rc")
                case Nil
                with Inr p sk colon v q sk2 comma show ?thesis by simp
              next
                case sk3: (Cons q' rd)
                have ld: "length rd < length rc" using sk3 by (rule skip_ws_Cons_length)
                show ?thesis
                proof (cases "q' \<noteq> CHR 0x22")
                  case True
                  with Inr p sk colon v q sk2 comma sk3 show ?thesis by simp
                next
                  case quote: False
                  have "JSONObject n rd \<noteq> Inl OutOfFuel"
                    using "6.IH"(2) [OF Inr [unfolded p] refl sk colon v [unfolded q] refl sk2 _ _ sk3 quote]
                      comma l la lb lc ld length_skip_ws [of ra] "6.prems"
                    by simp
                  with Inr p sk colon v q sk2 comma sk3 quote show ?thesis
                    by (auto split: sum.splits)
                qed
              qed
            qed
          qed
        qed
      qed
    qed
  qed
qed

text \<open>
  The recursion budget of \<open>loads\<close> is never exhausted: the decoder is total.
\<close>

theorem loads_total: "loads s \<noteq> Inl OutOfFuel"
proof -
  have f: "scan_once (2 * length (skip_ws s) + 1) (skip_ws s) \<noteq> Inl OutOfFuel"
    by (rule parse_fuel(1)) simp
  show ?thesis
  proof (cases "scan_once (2 * length (skip_ws s) + 1) (skip_ws s)")
    case (Inl e)
    with f show ?thesis by (simp add: loads_def Let_def del: scan_once.simps)
  next
    case (Inr p)
    then show ?thesis
      by (cases p) (simp add: loads_def Let_def del: scan_once.simps)
  qed
qed

subsection \<open>Decoded dictionaries have distinct keys\<close>









lemmas io_defs = io_return_def io_raise_def perform_def io_bind_def io_then_def try_except_def
  call_def lift_def getitem_def

section \<open>The lifecycle, step by step\<close>

lemma for_loop_group_add_ok:
  "supports_group_add self \<Longrightarrow>
     for_loop gs (\<lambda>grp. group_add self grp) = (map (\<lambda>g. GroupAdd g (channel_name self)) gs, Inr ())"
  by (induction gs)
    (auto simp: supports_group_add_def group_add_def io_defs split: option.splits)

lemma for_loop_group_add_fail:
  "\<not> supports_group_add self \<Longrightarrow> gs \<noteq> [] \<Longrightarrow>
     for_loop gs (\<lambda>grp. group_add self grp) = ([], Inl AttributeError)"
  by (cases gs)
    (auto simp: supports_group_add_def group_add_def io_defs split: option.splits)

lemma for_loop_group_discard_ok:
  "supports_group_discard self \<Longrightarrow>
     for_loop gs (\<lambda>grp. group_discard self grp)
       = (map (\<lambda>g. GroupDiscard g (channel_name self)) gs, Inr ())"
  by (induction gs)
    (auto simp: supports_group_discard_def group_discard_def io_defs split: option.splits)

lemma for_loop_group_discard_fail:
  "\<not> supports_group_discard self \<Longrightarrow> gs \<noteq> [] \<Longrightarrow>
     for_loop gs (\<lambda>grp. group_discard self grp) = ([], Inl AttributeError)"
  by (cases gs)
    (auto simp: supports_group_discard_def group_discard_def io_defs split: option.splits)

lemma join_groups:
  "groups self = [] \<or> supports_group_add self \<Longrightarrow>
     for_loop (groups self) (\<lambda>grp. group_add self grp)
       = (map (\<lambda>g. GroupAdd g (channel_name self)) (groups self), Inr ())"
  using for_loop_group_add_ok [of self "groups self"] by (auto simp: io_defs)

lemma leave_groups:
  "groups self = [] \<or> supports_group_discard self \<Longrightarrow>
     for_loop (groups self) (\<lambda>grp. group_discard self grp)
       = (map (\<lambda>g. GroupDiscard g (channel_name self)) (groups self), Inr ())"
  using for_loop_group_discard_ok [of self "groups self"] by (auto simp: io_defs)

lemma async_accept_eq: "AsyncWebsocketConsumer_accept = WebsocketConsumer_accept"
  by (simp add: AsyncWebsocketConsumer_accept_def WebsocketConsumer_accept_def)

lemma async_close_eq: "AsyncWebsocketConsumer_close = WebsocketConsumer_close"
  by (intro ext) (simp add: AsyncWebsocketConsumer_close_def WebsocketConsumer_close_def)

lemma async_connect_eq:
  "AsyncWebsocketConsumer_websocket_connect = WebsocketConsumer_websocket_connect"
  unfolding AsyncWebsocketConsumer_websocket_connect_def WebsocketConsumer_websocket_connect_def
    async_accept_eq async_close_eq
  by (rule refl)

lemma async_disconnect_eq:
  "AsyncWebsocketConsumer_websocket_disconnect = WebsocketConsumer_websocket_disconnect"
  by (intro ext)
    (simp add: AsyncWebsocketConsumer_websocket_disconnect_def WebsocketConsumer_websocket_disconnect_def)

lemma async_receive_eq:
  "AsyncWebsocketConsumer_websocket_receive = WebsocketConsumer_websocket_receive"
  by (intro ext)
    (simp add: AsyncWebsocketConsumer_websocket_receive_def WebsocketConsumer_websocket_receive_def)

lemma async_send_eq: "AsyncWebsocketConsumer_send = WebsocketConsumer_send"
  unfolding AsyncWebsocketConsumer_send_def WebsocketConsumer_send_def async_close_eq
  by (rule refl)

lemma async_decode_json_eq:
  "AsyncJsonWebsocketConsumer_decode_json = JsonWebsocketConsumer_decode_json"
  by (intro ext)
    (simp add: AsyncJsonWebsocketConsumer_decode_json_def JsonWebsocketConsumer_decode_json_def)

lemma async_encode_json_eq:
  "AsyncJsonWebsocketConsumer_encode_json = JsonWebsocketConsumer_encode_json"
  by (intro ext)
    (simp add: AsyncJsonWebsocketConsumer_encode_json_def JsonWebsocketConsumer_encode_json_def)

lemma async_json_receive_eq: "AsyncJsonWebsocketConsumer_receive = JsonWebsocketConsumer_receive"
  unfolding AsyncJsonWebsocketConsumer_receive_def JsonWebsocketConsumer_receive_def
    async_decode_json_eq
  by (rule refl)

lemma connect_run:
  assumes "groups self = [] \<or> supports_group_add self"
  shows "WebsocketConsumer_websocket_connect self message =
     (map (\<lambda>g. GroupAdd g (channel_name self)) (groups self) @ Call ConnectHook # fst (connect self)
        @ (if snd (connect self) = Inl AcceptConnection then [Send [(''type'', PStr ''websocket.accept'')]]
           else if snd (connect self) = Inl DenyConnection then [Send [(''type'', PStr ''websocket.close'')]]
           else []),
      if snd (connect self) = Inl AcceptConnection \<or> snd (connect self) = Inl DenyConnection
      then Inr () else snd (connect self))"
proof -
  obtain t r where c: "connect self = (t, r)" by (cases "connect self")
  show ?thesis
    unfolding WebsocketConsumer_websocket_connect_def join_groups [OF assms]
    by (cases r)
      (auto simp: c io_defs WebsocketConsumer_accept_def WebsocketConsumer_close_def)
qed

lemma connect_without_groups_support:
  assumes "groups self \<noteq> []" and "\<not> supports_group_add self"
  shows "WebsocketConsumer_websocket_connect self message =
     ([], Inl (InvalidChannelLayerError ''BACKEND is unconfigured or doesn't support groups''))"
  unfolding WebsocketConsumer_websocket_connect_def
  by (simp add: for_loop_group_add_fail [OF assms(2,1)] try_except_def io_then_def io_bind_def
      io_raise_def)

lemma disconnect_without_groups_support:
  assumes "groups self \<noteq> []" and "\<not> supports_group_discard self"
  shows "WebsocketConsumer_websocket_disconnect self message =
     ([], Inl (InvalidChannelLayerError ''BACKEND is unconfigured or doesn't support groups''))"
  unfolding WebsocketConsumer_websocket_disconnect_def
  by (simp add: for_loop_group_discard_fail [OF assms(2,1)] try_except_def io_then_def io_bind_def
      io_raise_def)

lemma connect_hook_called:
  "Call ConnectHook \<in> set (fst (WebsocketConsumer_websocket_connect self message))
     \<longleftrightarrow> groups self = [] \<or> supports_group_add self"
proof
  assume a: "Call ConnectHook \<in> set (fst (WebsocketConsumer_websocket_connect self message))"
  show "groups self = [] \<or> supports_group_add self"
  proof (rule ccontr)
    assume "\<not> (groups self = [] \<or> supports_group_add self)"
    then have "WebsocketConsumer_websocket_connect self message =
        ([], Inl (InvalidChannelLayerError ''BACKEND is unconfigured or doesn't support groups''))"
      using connect_without_groups_support by simp
    with a show False by simp
  qed
next
  assume "groups self = [] \<or> supports_group_add self"
  from connect_run [OF this] show
    "Call ConnectHook \<in> set (fst (WebsocketConsumer_websocket_connect self message))"
    by simp
qed

lemma disconnect_run:
  assumes "groups self = [] \<or> supports_group_discard self"
    and "map_of message ''code'' = Some code"
  shows "WebsocketConsumer_websocket_disconnect self message =
     (map (\<lambda>g. GroupDiscard g (channel_name self)) (groups self)
        @ Call (DisconnectHook code) # fst (disconnect self code),
      case snd (disconnect self code) of Inl e \<Rightarrow> Inl e | Inr _ \<Rightarrow> Inl StopConsumer)"
proof -
  obtain t r where c: "disconnect self code = (t, r)" by (cases "disconnect self code")
  show ?thesis
    unfolding WebsocketConsumer_websocket_disconnect_def leave_groups [OF assms(1)]
    by (cases r) (auto simp: c assms(2) io_defs)
qed

subsection \<open>Helpers\<close>


lemma loads_empty: "loads [] = Inl JSONDecodeError"
  by (simp add: loads_def skip_ws_def)


lemma dict_contains_iff: "dict_contains d k \<longleftrightarrow> k \<in> fst ` set d"
  by (simp add: dict_contains_def map_of_eq_None_iff)


lemma demux_receive_json_malformed:
  assumes "\<forall>d. content = JDict d \<longrightarrow> \<not> (''stream'' \<in> fst ` set d \<and> ''payload'' \<in> fst ` set d)"
  shows "AsyncJsonWebsocketDemultiplexer_receive_json content =
     ([], Inl (ValueError ''Invalid multiplexed **frame received (no channel/payload key)''))"
proof (cases content)
  case (JDict d)
  with assms have "\<not> (dict_contains d ''stream'' \<and> dict_contains d ''payload'')"
    by (simp add: dict_contains_iff)
  with JDict show ?thesis
    by (auto simp: AsyncJsonWebsocketDemultiplexer_receive_json_def io_defs)
qed (simp_all add: AsyncJsonWebsocketDemultiplexer_receive_json_def io_defs)

lemma demux_websocket_receive_text:
  assumes "map_of message ''text'' = Some (PStr t)" and "loads t = Inr content"
  shows "AsyncJsonWebsocketDemultiplexer_websocket_receive self message =
     (Call (ReceiveHook (PStr t) PNone) # Call (ReceiveJsonHook content) #
        fst (AsyncJsonWebsocketDemultiplexer_receive_json content),
      snd (AsyncJsonWebsocketDemultiplexer_receive_json content))"
proof -
  have t: "t \<noteq> []" using assms(2) loads_empty by auto
  obtain tr r where c: "AsyncJsonWebsocketDemultiplexer_receive_json content = (tr, r)"
    by (cases "AsyncJsonWebsocketDemultiplexer_receive_json content")
  show ?thesis
    using assms t
    by (simp add: AsyncJsonWebsocketDemultiplexer_websocket_receive_def
        AsyncJsonWebsocketDemultiplexer_def AsyncJsonWebsocketConsumer_def
        AsyncWebsocketConsumer_websocket_receive_def AsyncJsonWebsocketConsumer_receive_def
        AsyncJsonWebsocketConsumer_decode_json_def json_loads_def dict_contains_def c io_defs)
qed

section \<open>Properties of the consumers\<close>



text \<open>
  C2. Decoded content that is not a dictionary with both keys \<^verbatim>\<open>stream\<close> and
  \<^verbatim>\<open>payload\<close> makes \<^verbatim>\<open>receive_json\<close> raise \<^verbatim>\<open>ValueError\<close> "Invalid multiplexed
  **frame received (no channel/payload key)"; a physical receive of such a frame ends in
  that error and nothing is sent upstream.
\<close>

theorem malformed_envelope_rejected:
  assumes "\<forall>d. content = JDict d \<longrightarrow> \<not> (''stream'' \<in> fst ` set d \<and> ''payload'' \<in> fst ` set d)"
  shows
    "AsyncJsonWebsocketDemultiplexer_receive_json content =
       ([], Inl (ValueError ''Invalid multiplexed **frame received (no channel/payload key)''))
     \<and> (map_of message ''text'' = Some (PStr t) \<longrightarrow> loads t = Inr content \<longrightarrow>
          AsyncJsonWebsocketDemultiplexer_websocket_receive self message =
            ([Call (ReceiveHook (PStr t) PNone), Call (ReceiveJsonHook content)],
             Inl (ValueError ''Invalid multiplexed **frame received (no channel/payload key)'')))"
  using demux_receive_json_malformed [OF assms]
  by (auto simp: demux_websocket_receive_text)

text \<open>
  C2, witness: the envelope with no payload.
\<close>

theorem malformed_envelope_rejected_witness:
  "AsyncJsonWebsocketDemultiplexer_websocket_receive (AsyncWebsocketConsumer [] None ''c1'')
      [(''type'', PStr ''websocket.receive''),
       (''text'', PStr (''{'' @ CHR 0x22 # ''stream'' @ CHR 0x22 # '':'' @ CHR 0x22 # ''a'' @ CHR 0x22 # ''}''))] =
      ([Call (ReceiveHook (PStr (''{'' @ CHR 0x22 # ''stream'' @ CHR 0x22 # '':'' @ CHR 0x22 # ''a'' @ CHR 0x22 # ''}'')) PNone),
        Call (ReceiveJsonHook (JDict [(''stream'', JStr ''a'')]))],
       Inl (ValueError ''Invalid multiplexed **frame received (no channel/payload key)''))"
proof -
  let ?t = "''{'' @ CHR 0x22 # ''stream'' @ CHR 0x22 # '':'' @ CHR 0x22 # ''a'' @ CHR 0x22 # ''}''"
  let ?m = "[(''type'', PStr ''websocket.receive''), (''text'', PStr ?t)]"
  have a: "\<forall>d. JDict [(''stream'', JStr ''a'')] = JDict d \<longrightarrow>
      \<not> (''stream'' \<in> fst ` set d \<and> ''payload'' \<in> fst ` set d)" by auto
  have b: "map_of ?m ''text'' = Some (PStr ?t)" by simp
  have c: "loads ?t = Inr (JDict [(''stream'', JStr ''a'')])" by code_simp
  from malformed_envelope_rejected [OF a, of ?m ?t "AsyncWebsocketConsumer [] None ''c1''"] b c
  show ?thesis by blast
qed



text \<open>
  An observation beside C3: with no child task, \<^verbatim>\<open>asyncio.wait\<close> raises \<^verbatim>\<open>ValueError\<close>,
  which the \<^verbatim>\<open>except TimeoutError\<close> clause does not catch; the disconnect of the base class
  does not run.
\<close>

lemma demultiplexer_disconnect_no_children:
  "child_application_tasks self = [] \<Longrightarrow>
     AsyncJsonWebsocketDemultiplexer_websocket_disconnect self outcome message =
       ([SendToAllUpstream message], Inl (ValueError ''Set of coroutines/Futures is empty.''))"
  by (simp add: AsyncJsonWebsocketDemultiplexer_websocket_disconnect_def asyncio_wait_def
      send_to_all_upstream_def io_defs)

text \<open>
  C4, as amended. Handling a connect event in which the \<^verbatim>\<open>connect\<close> hook is called, in
  the synchronous and the asynchronous consumer alike: if the \<^verbatim>\<open>connect\<close> hook raises the accept
  signal the machine emits an accept event after what the hook did; if it raises the deny
  signal the machine emits a bare close event; if the hook returns normally the machine
  emits nothing further. The \<^verbatim>\<open>connect\<close> of the base class accepts by itself, so a consumer
  that does not override it emits exactly one accept event.
\<close>

theorem connect_decision:
  assumes "Call ConnectHook \<in> set (fst (WebsocketConsumer_websocket_connect self message))"
  shows
    "(snd (connect self) = Inl AcceptConnection \<longrightarrow>
        WebsocketConsumer_websocket_connect self message =
          (map (\<lambda>g. GroupAdd g (channel_name self)) (groups self) @ Call ConnectHook #
             fst (connect self) @ [Send [(''type'', PStr ''websocket.accept'')]], Inr ()))
     \<and> (snd (connect self) = Inl DenyConnection \<longrightarrow>
        WebsocketConsumer_websocket_connect self message =
          (map (\<lambda>g. GroupAdd g (channel_name self)) (groups self) @ Call ConnectHook #
             fst (connect self) @ [Send [(''type'', PStr ''websocket.close'')]], Inr ()))
     \<and> (snd (connect self) = Inr () \<longrightarrow>
        WebsocketConsumer_websocket_connect self message =
          (map (\<lambda>g. GroupAdd g (channel_name self)) (groups self) @ Call ConnectHook #
             fst (connect self), Inr ()))
     \<and> (connect self = WebsocketConsumer_connect \<longrightarrow>
        WebsocketConsumer_websocket_connect self message =
          (map (\<lambda>g. GroupAdd g (channel_name self)) (groups self) @
             [Call ConnectHook, Send [(''type'', PStr ''websocket.accept'')]], Inr ()))
     \<and> AsyncWebsocketConsumer_websocket_connect self message =
         WebsocketConsumer_websocket_connect self message
     \<and> AsyncWebsocketConsumer_connect = WebsocketConsumer_connect"
proof -
  have d: "WebsocketConsumer_connect = ([Send [(''type'', PStr ''websocket.accept'')]], Inr ())"
    by (simp add: WebsocketConsumer_connect_def WebsocketConsumer_accept_def perform_def)
  have e: "AsyncWebsocketConsumer_connect = WebsocketConsumer_connect"
    by (simp add: AsyncWebsocketConsumer_connect_def WebsocketConsumer_connect_def async_accept_eq)
  have g: "groups self = [] \<or> supports_group_add self"
    using assms by (simp only: connect_hook_called)
  show ?thesis
    unfolding connect_run [OF g] async_connect_eq
    by (auto simp: e d)
qed

text \<open>
  C4, witness: a consumer in group chat whose \<^verbatim>\<open>connect\<close> raises the accept signal.
\<close>

theorem connect_decision_witness:
  "Call ConnectHook \<in> set (fst (WebsocketConsumer_websocket_connect
     ((WebsocketConsumer [''chat''] (Some \<lparr>has_group_add = True, has_group_discard = True\<rparr>) ''c1'')
        \<lparr>connect := io_raise AcceptConnection\<rparr>)
     [(''type'', PStr ''websocket.connect'')]))
   \<and> WebsocketConsumer_websocket_connect
     ((WebsocketConsumer [''chat''] (Some \<lparr>has_group_add = True, has_group_discard = True\<rparr>) ''c1'')
        \<lparr>connect := io_raise AcceptConnection\<rparr>)
     [(''type'', PStr ''websocket.connect'')]
     = ([GroupAdd ''chat'' ''c1'', Call ConnectHook, Send [(''type'', PStr ''websocket.accept'')]],
        Inr ())"
proof -
  let ?c = "(WebsocketConsumer [''chat''] (Some \<lparr>has_group_add = True, has_group_discard = True\<rparr>) ''c1'')
        \<lparr>connect := io_raise AcceptConnection\<rparr>"
  let ?m = "[(''type'', PStr ''websocket.connect'')]"
  have h: "Call ConnectHook \<in> set (fst (WebsocketConsumer_websocket_connect ?c ?m))"
    by (simp add: WebsocketConsumer_websocket_connect_def WebsocketConsumer_def group_add_def
        WebsocketConsumer_accept_def io_defs)
  from connect_decision [OF h] h
  show ?thesis by (simp add: WebsocketConsumer_def io_raise_def)
qed

text \<open>
  C4 as stated fails: a consumer whose \<^verbatim>\<open>connect\<close> is overridden to return without doing
  anything gets no accept event.
\<close>

theorem connect_returns_normally_counterexample:
  "snd (connect ((WebsocketConsumer [] None ''c1'')\<lparr>connect := io_return ()\<rparr>)) = Inr ()
   \<and> WebsocketConsumer_websocket_connect
        ((WebsocketConsumer [] None ''c1'')\<lparr>connect := io_return ()\<rparr>)
        [(''type'', PStr ''websocket.connect'')] = ([Call ConnectHook], Inr ())
   \<and> Send [(''type'', PStr ''websocket.accept'')] \<notin>
       set (fst (WebsocketConsumer_websocket_connect
         ((WebsocketConsumer [] None ''c1'')\<lparr>connect := io_return ()\<rparr>)
         [(''type'', PStr ''websocket.connect'')]))
   \<and> AsyncWebsocketConsumer_websocket_connect
        ((AsyncWebsocketConsumer [] None ''c1'')\<lparr>connect := io_return ()\<rparr>)
        [(''type'', PStr ''websocket.connect'')] = ([Call ConnectHook], Inr ())"
  by (simp add: WebsocketConsumer_def AsyncWebsocketConsumer_def
      WebsocketConsumer_websocket_connect_def AsyncWebsocketConsumer_websocket_connect_def io_defs)

text \<open>
  C5. For a consumer with declared groups G whose channel layer has the group methods (or
  with G empty): on connect, \<^verbatim>\<open>group_add\<close> is issued for each group of G, in order, and all
  of them come before the call of the \<^verbatim>\<open>connect\<close> hook; on disconnect, \<^verbatim>\<open>group_discard\<close> is
  issued for each group of G before the call of the \<^verbatim>\<open>disconnect\<close> hook; and when G is empty
  the lifecycle itself makes no call to the channel layer: the trace is the hook's call,
  what the hook does, and the accept or close event.
\<close>

theorem group_membership_ordering:
  assumes "groups self = [] \<or> supports_group_add self"
    and "groups self = [] \<or> supports_group_discard self"
    and "map_of dmessage ''code'' = Some code"
  shows
    "fst (WebsocketConsumer_websocket_connect self cmessage) =
        map (\<lambda>g. GroupAdd g (channel_name self)) (groups self) @ Call ConnectHook #
          fst (connect self) @
          (if snd (connect self) = Inl AcceptConnection
           then [Send [(''type'', PStr ''websocket.accept'')]]
           else if snd (connect self) = Inl DenyConnection
           then [Send [(''type'', PStr ''websocket.close'')]]
           else [])
     \<and> fst (WebsocketConsumer_websocket_disconnect self dmessage) =
        map (\<lambda>g. GroupDiscard g (channel_name self)) (groups self) @
          Call (DisconnectHook code) # fst (disconnect self code)
     \<and> (groups self = [] \<longrightarrow>
          fst (WebsocketConsumer_websocket_connect self cmessage) =
            Call ConnectHook # fst (connect self) @
            (if snd (connect self) = Inl AcceptConnection
             then [Send [(''type'', PStr ''websocket.accept'')]]
             else if snd (connect self) = Inl DenyConnection
             then [Send [(''type'', PStr ''websocket.close'')]]
             else [])
          \<and> fst (WebsocketConsumer_websocket_disconnect self dmessage) =
            Call (DisconnectHook code) # fst (disconnect self code))
     \<and> AsyncWebsocketConsumer_websocket_connect self cmessage =
         WebsocketConsumer_websocket_connect self cmessage
     \<and> AsyncWebsocketConsumer_websocket_disconnect self dmessage =
         WebsocketConsumer_websocket_disconnect self dmessage"
  unfolding connect_run [OF assms(1)] disconnect_run [OF assms(2,3)]
    async_connect_eq async_disconnect_eq
  by simp

text \<open>
  C5, witness: a consumer in two groups, with the hooks of the base class.
\<close>

theorem group_membership_ordering_witness:
  "fst (WebsocketConsumer_websocket_connect
          (WebsocketConsumer [''chat'', ''news'']
             (Some \<lparr>has_group_add = True, has_group_discard = True\<rparr>) ''c1'')
          [(''type'', PStr ''websocket.connect'')]) =
      [GroupAdd ''chat'' ''c1'', GroupAdd ''news'' ''c1'', Call ConnectHook,
       Send [(''type'', PStr ''websocket.accept'')]]
   \<and> fst (WebsocketConsumer_websocket_disconnect
          (WebsocketConsumer [''chat'', ''news'']
             (Some \<lparr>has_group_add = True, has_group_discard = True\<rparr>) ''c1'')
          [(''type'', PStr ''websocket.disconnect''), (''code'', PInt 1000)]) =
      [GroupDiscard ''chat'' ''c1'', GroupDiscard ''news'' ''c1'', Call (DisconnectHook (PInt 1000))]"
proof -
  let ?c = "WebsocketConsumer [''chat'', ''news'']
             (Some \<lparr>has_group_add = True, has_group_discard = True\<rparr>) ''c1''"
  have a: "groups ?c = [] \<or> supports_group_add ?c"
    by (simp add: supports_group_add_def WebsocketConsumer_def)
  have b: "groups ?c = [] \<or> supports_group_discard ?c"
    by (simp add: supports_group_discard_def WebsocketConsumer_def)
  have c: "map_of [(''type'', PStr ''websocket.disconnect''), (''code'', PInt 1000)] ''code''
      = Some (PInt 1000)" by simp
  from group_membership_ordering [OF a b c, of "[(''type'', PStr ''websocket.connect'')]"]
  show ?thesis
    by (simp add: WebsocketConsumer_def WebsocketConsumer_connect_def WebsocketConsumer_accept_def
        WebsocketConsumer_disconnect_def perform_def io_return_def)
qed

text \<open>
  C6. For a consumer with a non-empty group list whose channel layer is missing or lacks the
  group method, handling connect (respectively disconnect) raises
  \<^verbatim>\<open>InvalidChannelLayerError\<close> at once: nothing was emitted and no hook was called.
\<close>

theorem groups_unsupported_error:
  assumes "groups self \<noteq> []"
  shows
    "(\<not> supports_group_add self \<longrightarrow>
        WebsocketConsumer_websocket_connect self message =
          ([], Inl (InvalidChannelLayerError ''BACKEND is unconfigured or doesn't support groups''))
        \<and> AsyncWebsocketConsumer_websocket_connect self message =
          ([], Inl (InvalidChannelLayerError ''BACKEND is unconfigured or doesn't support groups'')))
     \<and> (\<not> supports_group_discard self \<longrightarrow>
        WebsocketConsumer_websocket_disconnect self message =
          ([], Inl (InvalidChannelLayerError ''BACKEND is unconfigured or doesn't support groups''))
        \<and> AsyncWebsocketConsumer_websocket_disconnect self message =
          ([], Inl (InvalidChannelLayerError ''BACKEND is unconfigured or doesn't support groups'')))"
proof -
  have a: "\<not> supports_group_add self \<Longrightarrow>
      WebsocketConsumer_websocket_connect self message =
        ([], Inl (InvalidChannelLayerError ''BACKEND is unconfigured or doesn't support groups''))"
    unfolding WebsocketConsumer_websocket_connect_def
    by (simp add: for_loop_group_add_fail [OF _ assms] try_except_def io_then_def io_bind_def
        io_raise_def)
  have b: "\<not> supports_group_discard self \<Longrightarrow>
      WebsocketConsumer_websocket_disconnect self message =
        ([], Inl (InvalidChannelLayerError ''BACKEND is unconfigured or doesn't support groups''))"
    unfolding WebsocketConsumer_websocket_disconnect_def
    by (simp add: for_loop_group_discard_fail [OF _ assms] try_except_def io_then_def io_bind_def
        io_raise_def)
  show ?thesis using a b by (simp add: async_connect_eq async_disconnect_eq)
qed

text \<open>
  C6, witness: a consumer in group chat with no channel layer, and one whose layer has no
  group methods.
\<close>

theorem groups_unsupported_error_witness:
  "WebsocketConsumer_websocket_connect (WebsocketConsumer [''chat''] None ''c1'')
      [(''type'', PStr ''websocket.connect'')] =
      ([], Inl (InvalidChannelLayerError ''BACKEND is unconfigured or doesn't support groups''))
   \<and> WebsocketConsumer_websocket_disconnect
      (WebsocketConsumer [''chat''] (Some \<lparr>has_group_add = False, has_group_discard = False\<rparr>) ''c1'')
      [(''type'', PStr ''websocket.disconnect''), (''code'', PInt 1000)] =
      ([], Inl (InvalidChannelLayerError ''BACKEND is unconfigured or doesn't support groups''))"
proof -
  have a: "groups (WebsocketConsumer [''chat''] None ''c1'') \<noteq> []"
    by (simp add: WebsocketConsumer_def)
  have a': "\<not> supports_group_add (WebsocketConsumer [''chat''] None ''c1'')"
    by (simp add: WebsocketConsumer_def supports_group_add_def)
  have b: "groups (WebsocketConsumer [''chat'']
      (Some \<lparr>has_group_add = False, has_group_discard = False\<rparr>) ''c1'') \<noteq> []"
    by (simp add: WebsocketConsumer_def)
  have b': "\<not> supports_group_discard (WebsocketConsumer [''chat'']
      (Some \<lparr>has_group_add = False, has_group_discard = False\<rparr>) ''c1'')"
    by (simp add: WebsocketConsumer_def supports_group_discard_def)
  from groups_unsupported_error [OF a, of "[(''type'', PStr ''websocket.connect'')]"] a'
    groups_unsupported_error [OF b, of "[(''type'', PStr ''websocket.disconnect''), (''code'', PInt 1000)]"] b'
  show ?thesis by blast
qed

text \<open>
  C7. A \<^verbatim>\<open>receive\<close> of a JSON consumer (synchronous or asynchronous) with no text raises
  \<^verbatim>\<open>ValueError\<close> "No text section for incoming WebSocket frame!" whatever the bytes are;
  a \<^verbatim>\<open>websocket.receive\<close> event with bytes and no text, or with the text \<^verbatim>\<open>None\<close>, ends in
  that error, and \<^verbatim>\<open>receive_json\<close> is not called.
\<close>

theorem json_receive_rejects_bytes:
  "JsonWebsocketConsumer_receive self PNone bytes_data =
      ([], Inl (ValueError ''No text section for incoming WebSocket frame!''))
   \<and> AsyncJsonWebsocketConsumer_receive self PNone bytes_data =
      ([], Inl (ValueError ''No text section for incoming WebSocket frame!''))
   \<and> (\<not> dict_contains message ''text'' \<longrightarrow> map_of message ''bytes'' = Some bytes_data \<longrightarrow>
        WebsocketConsumer_websocket_receive (JsonWebsocketConsumer self) message =
          ([Call (ReceiveHook PNone bytes_data)],
           Inl (ValueError ''No text section for incoming WebSocket frame!''))
        \<and> AsyncWebsocketConsumer_websocket_receive (AsyncJsonWebsocketConsumer self) message =
          ([Call (ReceiveHook PNone bytes_data)],
           Inl (ValueError ''No text section for incoming WebSocket frame!'')))
   \<and> (map_of message ''text'' = Some PNone \<longrightarrow>
        WebsocketConsumer_websocket_receive (JsonWebsocketConsumer self) message =
          ([Call (ReceiveHook PNone PNone)],
           Inl (ValueError ''No text section for incoming WebSocket frame!''))
        \<and> AsyncWebsocketConsumer_websocket_receive (AsyncJsonWebsocketConsumer self) message =
          ([Call (ReceiveHook PNone PNone)],
           Inl (ValueError ''No text section for incoming WebSocket frame!'')))"
  by (simp add: JsonWebsocketConsumer_receive_def AsyncJsonWebsocketConsumer_receive_def
      WebsocketConsumer_websocket_receive_def AsyncWebsocketConsumer_websocket_receive_def
      JsonWebsocketConsumer_def AsyncJsonWebsocketConsumer_def dict_contains_def io_defs)

text \<open>
  C7, witness: a binary frame.
\<close>

theorem json_receive_rejects_bytes_witness:
  "WebsocketConsumer_websocket_receive
      (JsonWebsocketConsumer (WebsocketConsumer [] None ''c1''))
      [(''type'', PStr ''websocket.receive''), (''bytes'', PBytes ''abc'')] =
      ([Call (ReceiveHook PNone (PBytes ''abc''))],
       Inl (ValueError ''No text section for incoming WebSocket frame!''))"
proof -
  let ?m = "[(''type'', PStr ''websocket.receive''), (''bytes'', PBytes ''abc'')]"
  have a: "\<not> dict_contains ?m ''text''" by (simp add: dict_contains_def)
  have b: "map_of ?m ''bytes'' = Some (PBytes ''abc'')" by simp
  from json_receive_rejects_bytes [of "WebsocketConsumer [] None ''c1''" "PBytes ''abc''" ?m] a b
  show ?thesis by blast
qed




text \<open>
  C9. \<^verbatim>\<open>send\<close> with neither text nor bytes raises \<^verbatim>\<open>ValueError\<close> and emits nothing.
  With text, exactly one \<^verbatim>\<open>websocket.send\<close> event is emitted and it carries the text;
  with bytes and no text, exactly one that carries the bytes. When \<^verbatim>\<open>close\<close> is false that
  event is the whole trace. The asynchronous \<^verbatim>\<open>send\<close> does the same.
\<close>

theorem send_requires_payload:
  "WebsocketConsumer_send PNone PNone close =
      ([], Inl (ValueError ''You must pass one of bytes_data or text_data''))
   \<and> (text_data \<noteq> PNone \<longrightarrow>
        filter is_websocket_send (fst (WebsocketConsumer_send text_data bytes_data close)) =
          [Send [(''type'', PStr ''websocket.send''), (''text'', text_data)]]
        \<and> WebsocketConsumer_send text_data bytes_data (PBool False) =
          ([Send [(''type'', PStr ''websocket.send''), (''text'', text_data)]], Inr ()))
   \<and> (bytes_data \<noteq> PNone \<longrightarrow>
        filter is_websocket_send (fst (WebsocketConsumer_send PNone bytes_data close)) =
          [Send [(''type'', PStr ''websocket.send''), (''bytes'', bytes_data)]]
        \<and> WebsocketConsumer_send PNone bytes_data (PBool False) =
          ([Send [(''type'', PStr ''websocket.send''), (''bytes'', bytes_data)]], Inr ()))
   \<and> AsyncWebsocketConsumer_send text_data bytes_data close =
       WebsocketConsumer_send text_data bytes_data close"
  by (simp add: WebsocketConsumer_send_def WebsocketConsumer_close_def is_websocket_send_def
      async_send_eq io_defs)

text \<open>
  C9, witness: a text sent with a close code.
\<close>

theorem send_requires_payload_witness:
  "WebsocketConsumer_send (PStr ''hello'') PNone (PInt 1000) =
      ([Send [(''type'', PStr ''websocket.send''), (''text'', PStr ''hello'')],
        Send [(''type'', PStr ''websocket.close''), (''code'', PInt 1000)]], Inr ())
   \<and> filter is_websocket_send (fst (WebsocketConsumer_send (PStr ''hello'') PNone (PInt 1000))) =
      [Send [(''type'', PStr ''websocket.send''), (''text'', PStr ''hello'')]]"
proof -
  have a: "PStr ''hello'' \<noteq> PNone" by simp
  have b: "WebsocketConsumer_send (PStr ''hello'') PNone (PInt 1000) =
      ([Send [(''type'', PStr ''websocket.send''), (''text'', PStr ''hello'')],
        Send [(''type'', PStr ''websocket.close''), (''code'', PInt 1000)]], Inr ())"
    by (simp add: WebsocketConsumer_send_def WebsocketConsumer_close_def io_defs)
  from send_requires_payload [of "PInt 1000" "PStr ''hello''" PNone] a b
  show ?thesis by blast
qed

text \<open>
  C10. A \<^verbatim>\<open>receive\<close> of a JSON consumer with the empty string as text and no bytes raises
  "No text section for incoming WebSocket frame!": the empty string is false, so the text
  is not decoded (decoding it would raise \<^verbatim>\<open>JSONDecodeError\<close> instead).
\<close>

theorem json_receive_empty_text:
  "JsonWebsocketConsumer_receive self (PStr []) PNone =
      ([], Inl (ValueError ''No text section for incoming WebSocket frame!''))
   \<and> AsyncJsonWebsocketConsumer_receive self (PStr []) PNone =
      ([], Inl (ValueError ''No text section for incoming WebSocket frame!''))
   \<and> WebsocketConsumer_websocket_receive (JsonWebsocketConsumer self)
        [(''type'', PStr ''websocket.receive''), (''text'', PStr [])] =
      ([Call (ReceiveHook (PStr []) PNone)],
       Inl (ValueError ''No text section for incoming WebSocket frame!''))
   \<and> AsyncWebsocketConsumer_websocket_receive (AsyncJsonWebsocketConsumer self)
        [(''type'', PStr ''websocket.receive''), (''text'', PStr [])] =
      ([Call (ReceiveHook (PStr []) PNone)],
       Inl (ValueError ''No text section for incoming WebSocket frame!''))
   \<and> JsonWebsocketConsumer_decode_json (PStr []) = Inl JSONDecodeError
   \<and> AsyncJsonWebsocketConsumer_decode_json (PStr []) = Inl JSONDecodeError"
  by (simp add: JsonWebsocketConsumer_receive_def AsyncJsonWebsocketConsumer_receive_def
      WebsocketConsumer_websocket_receive_def AsyncWebsocketConsumer_websocket_receive_def
      JsonWebsocketConsumer_def AsyncJsonWebsocketConsumer_def dict_contains_def io_defs
      JsonWebsocketConsumer_decode_json_def AsyncJsonWebsocketConsumer_decode_json_def
      json_loads_def loads_empty)

end
